theory Spec2Isabelle
  imports Main "HOL-Library.Sublist"
begin

section \<open>The repository mirror of fep-mcp (src/repository.ts)\<close>

text \<open>
  The module keeps two variables, \<open>currentRepo\<close> and \<open>currentRepoPath\<close>, and talks to
  three things outside itself: the Deno runtime (temporary directories, recursive removal,
  reading files, timers, the console), the es-git library (clone, remote lookup, fetch, open)
  and the disk. The embedding threads one record through every function: the two module
  variables, the disk, the answers the outside world is going to give, and a trace of every
  call made to the outside world, in order.

  A \<open>throw\<close> is the left injection of a sum, a \<open>try/catch\<close> is a case distinction on it.

  Left out: calls that overlap (every \<open>async\<close> function runs to completion before the next
  one starts); the resolution of paths by the system (a path is the string the module builds);
  the stack that the console prints with an error object; and time, but for the milliseconds
  handed to \<open>setTimeout\<close>.
\<close>

subsection \<open>Values that are thrown and caught\<close>

datatype deno_error = NotFound | PermissionDenied | AlreadyExists | IsADirectory | NotADirectory | Busy

datatype thrown =
    Error string \<comment> \<open>\<open>new Error(message)\<close>, also the errors of es-git\<close>
  | Deno_error deno_error string \<comment> \<open>an instance of \<open>Deno.errors.\<dots>\<close>, with its message\<close>
  | Thrown_value string \<comment> \<open>a thrown value that is no \<open>Error\<close>; the string is \<open>String(value)\<close>\<close>

fun instanceof_Error :: "thrown \<Rightarrow> bool" where
  "instanceof_Error (Error m) = True"
| "instanceof_Error (Deno_error k m) = True"
| "instanceof_Error (Thrown_value v) = False"

fun instanceof_NotFound :: "thrown \<Rightarrow> bool" where
  "instanceof_NotFound (Deno_error k m) = (k = NotFound)"
| "instanceof_NotFound x = False"

text \<open>
  \<open>error.message\<close> (on a value that is no \<open>Error\<close> the property is \<open>undefined\<close>) and
  \<open>String(error)\<close>.
\<close>

fun message :: "thrown \<Rightarrow> string" where
  "message (Error m) = m"
| "message (Deno_error k m) = m"
| "message (Thrown_value v) = ''undefined''"

fun String :: "thrown \<Rightarrow> string" where
  "String (Error m) = ''Error: '' @ m"
| "String (Deno_error NotFound m) = ''NotFound: '' @ m"
| "String (Deno_error PermissionDenied m) = ''PermissionDenied: '' @ m"
| "String (Deno_error AlreadyExists m) = ''AlreadyExists: '' @ m"
| "String (Deno_error IsADirectory m) = ''IsADirectory: '' @ m"
| "String (Deno_error NotADirectory m) = ''NotADirectory: '' @ m"
| "String (Deno_error Busy m) = ''Busy: '' @ m"
| "String (Thrown_value v) = v"

subsection \<open>The disk, the outside world and the module state\<close>

datatype node = File string | Dir

text \<open>The random part of a temporary name is made of hexadecimal digits.\<close>

datatype hexdigit = H0 | H1 | H2 | H3 | H4 | H5 | H6 | H7 | H8 | H9 | Ha | Hb | Hc | Hd | He | Hf

fun hexchar :: "hexdigit \<Rightarrow> char" where
  "hexchar H0 = CHR ''0''" | "hexchar H1 = CHR ''1''" | "hexchar H2 = CHR ''2''"
| "hexchar H3 = CHR ''3''" | "hexchar H4 = CHR ''4''" | "hexchar H5 = CHR ''5''"
| "hexchar H6 = CHR ''6''" | "hexchar H7 = CHR ''7''" | "hexchar H8 = CHR ''8''"
| "hexchar H9 = CHR ''9''" | "hexchar Ha = CHR ''a''" | "hexchar Hb = CHR ''b''"
| "hexchar Hc = CHR ''c''" | "hexchar Hd = CHR ''d''" | "hexchar He = CHR ''e''"
| "hexchar Hf = CHR ''f''"

text \<open>An es-git \<open>Repository\<close> object: its identity and the directory it was opened on.\<close>

datatype repository = Repository (repo_id: nat) (workdir: string)

datatype remote = Remote repository string

text \<open>Every call that leaves the module, with its arguments.\<close>

datatype event =
    MakeTempDir string
  | Remove string
  | ReadTextFile string
  | Stat string
  | ReadDir string
  | SetTimeout nat
  | CloneRepository string string
  | GetRemote string
  | Fetch
  | OpenRepository string

text \<open>
  What one call of es-git is going to do: return, with the entries it leaves on disk, named
  relative to the directory it works in; or throw, with the entries it has left by then, if it
  leaves any.
\<close>

datatype response =
    Succeeds "(string \<times> node) list"
  | Fails thrown "(string \<times> node) list option"

fun leaves :: "response \<Rightarrow> (string \<times> node) list" where
  "leaves (Succeeds tree) = tree"
| "leaves (Fails x None) = []"
| "leaves (Fails x (Some tree)) = tree"

record state =
  currentRepo :: "repository option"
  currentRepoPath :: "string option"
  disk :: "(string \<times> node) list" \<comment> \<open>full path and node; the first entry of a path counts\<close>
  faults :: "event \<Rightarrow> thrown option" \<comment> \<open>the calls of the runtime that the system refuses\<close>
  tmpdir :: string \<comment> \<open>the system's directory for temporary files\<close>
  rng :: "hexdigit list list" \<comment> \<open>the random names the runtime will draw\<close>
  es_git :: "nat \<Rightarrow> response" \<comment> \<open>the outcome of the n-th call of es-git\<close>
  calls :: nat \<comment> \<open>the calls of es-git made so far\<close>
  trace :: "event list"
  console :: "string list"

text \<open>JavaScript truthiness of \<open>string | null\<close>, and the rendering \<open>${\<dots>}\<close> of such a value.\<close>

fun truthy :: "string option \<Rightarrow> bool" where
  "truthy None = False"
| "truthy (Some p) = (p \<noteq> [])"

fun template :: "string option \<Rightarrow> string" where
  "template None = ''null''"
| "template (Some p) = p"

subsection \<open>The Deno runtime\<close>

text \<open>
  Paths are compared as the strings the module builds; \<open>q\<close> lies inside \<open>p\<close> when it is \<open>p\<close>
  or starts with \<open>p/\<close>.
\<close>

definition inside :: "string \<Rightarrow> string \<Rightarrow> bool" where
  "inside p q \<longleftrightarrow> q = p \<or> prefix (p @ ''/'') q"

definition record_call :: "event \<Rightarrow> state \<Rightarrow> state" where
  "record_call e s = s\<lparr>trace := trace s @ [e]\<rparr>"

definition console_error :: "string \<Rightarrow> state \<Rightarrow> state" where
  "console_error line s = s\<lparr>console := console s @ [line]\<rparr>"

text \<open>
  \<open>Deno.remove(path, { recursive: true })\<close>: refused by the system, or \<open>NotFound\<close>, or
  the path and all that lies inside it are gone.
\<close>

definition Deno_remove :: "string \<Rightarrow> state \<Rightarrow> (thrown + unit) \<times> state" where
  "Deno_remove path s =
     (let s' = record_call (Remove path) s in
      case faults s (Remove path) of
        Some error \<Rightarrow> (Inl error, s')
      | None \<Rightarrow>
          if map_of (disk s) path = None
          then (Inl (Deno_error NotFound ''No such file or directory (os error 2)''), s')
          else (Inr (), s'\<lparr>disk := filter (\<lambda>(q, n). \<not> inside path q) (disk s)\<rparr>))"

text \<open>
  \<open>Deno.makeTempDir({ prefix })\<close>: the runtime draws random names until one does not exist
  yet, and creates that directory. A supply that runs out stands for a directory that cannot
  be created.
\<close>

definition temp_path :: "state \<Rightarrow> string \<Rightarrow> hexdigit list \<Rightarrow> string" where
  "temp_path s pre u = tmpdir s @ ''/'' @ pre @ map hexchar u"

definition exists_on_disk :: "state \<Rightarrow> string \<Rightarrow> bool" where
  "exists_on_disk s p \<longleftrightarrow> map_of (disk s) p \<noteq> None"

definition Deno_makeTempDir :: "string \<Rightarrow> state \<Rightarrow> (thrown + string) \<times> state" where
  "Deno_makeTempDir pre s =
     (case dropWhile (\<lambda>u. exists_on_disk s (temp_path s pre u)) (rng s) of
        [] \<Rightarrow> (Inl (Deno_error PermissionDenied ''Permission denied (os error 13)''), s\<lparr>rng := []\<rparr>)
      | u # us \<Rightarrow>
          (let p = temp_path s pre u; s' = record_call (MakeTempDir p) (s\<lparr>rng := us\<rparr>) in
           case faults s (MakeTempDir p) of
             Some error \<Rightarrow> (Inl error, s')
           | None \<Rightarrow> (Inr p, s'\<lparr>disk := (p, Dir) # disk s\<rparr>)))"

text \<open>\<open>Deno.readTextFile\<close>, \<open>Deno.stat\<close> and \<open>Deno.readDir\<close>\<close>

definition Deno_readTextFile :: "string \<Rightarrow> state \<Rightarrow> (thrown + string) \<times> state" where
  "Deno_readTextFile path s =
     (let s' = record_call (ReadTextFile path) s in
      case faults s (ReadTextFile path) of
        Some error \<Rightarrow> (Inl error, s')
      | None \<Rightarrow>
          (case map_of (disk s) path of
             None \<Rightarrow> (Inl (Deno_error NotFound ''No such file or directory (os error 2)''), s')
           | Some Dir \<Rightarrow> (Inl (Deno_error IsADirectory ''Is a directory (os error 21)''), s')
           | Some (File text) \<Rightarrow> (Inr text, s')))"

definition Deno_stat :: "string \<Rightarrow> state \<Rightarrow> (thrown + node) \<times> state" where
  "Deno_stat path s =
     (let s' = record_call (Stat path) s in
      case faults s (Stat path) of
        Some error \<Rightarrow> (Inl error, s')
      | None \<Rightarrow>
          (case map_of (disk s) path of
             None \<Rightarrow> (Inl (Deno_error NotFound ''No such file or directory (os error 2)''), s')
           | Some n \<Rightarrow> (Inr n, s')))"

definition entry_name :: "string \<Rightarrow> string \<Rightarrow> string option" where
  "entry_name p q =
     (let name = drop (length p + 1) q in
      if prefix (p @ ''/'') q \<and> name \<noteq> [] \<and> CHR ''/'' \<notin> set name then Some name else None)"

definition Deno_readDir :: "string \<Rightarrow> state \<Rightarrow> (thrown + string list) \<times> state" where
  "Deno_readDir path s =
     (let s' = record_call (ReadDir path) s in
      case faults s (ReadDir path) of
        Some error \<Rightarrow> (Inl error, s')
      | None \<Rightarrow>
          (case map_of (disk s) path of
             None \<Rightarrow> (Inl (Deno_error NotFound ''No such file or directory (os error 2)''), s')
           | Some (File text) \<Rightarrow> (Inl (Deno_error NotADirectory ''Not a directory (os error 20)''), s')
           | Some Dir \<Rightarrow> (Inr (remdups (List.map_filter (\<lambda>(q, n). entry_name path q) (disk s))), s')))"

subsection \<open>The es-git library\<close>

text \<open>
  Each call takes the next outcome the outside world has in store. A clone that succeeds
  leaves the destination directory with the checkout in it. A clone that fails leaves the
  disk as it found it (it has tidied up after itself), or leaves the destination directory
  with some partial content in it. A fetch writes files below the repository's \<open>.git\<close>
  directory; looking up a remote and opening a repository write nothing.
\<close>

definition plant :: "string \<Rightarrow> (string \<times> node) list \<Rightarrow> (string \<times> node) list \<Rightarrow> (string \<times> node) list" where
  "plant root tree d = map (\<lambda>(rel, n). (root @ ''/'' @ rel, n)) tree @ d"

definition checkout :: "string \<Rightarrow> (string \<times> node) list \<Rightarrow> (string \<times> node) list" where
  "checkout root tree = (root, Dir) # plant root tree []"

fun cloned :: "response \<Rightarrow> string \<Rightarrow> (string \<times> node) list \<Rightarrow> (string \<times> node) list" where
  "cloned (Fails x None) root d = d"
| "cloned r root d = checkout root (leaves r) @ d"

definition next_call :: "event \<Rightarrow> state \<Rightarrow> state" where
  "next_call e s = record_call e (s\<lparr>calls := Suc (calls s)\<rparr>)"

definition cloneRepository :: "string \<Rightarrow> string \<Rightarrow> state \<Rightarrow> (thrown + repository) \<times> state" where
  "cloneRepository url path s =
     (let r = es_git s (calls s);
          s' = (next_call (CloneRepository url path) s)\<lparr>disk := cloned r path (disk s)\<rparr>
      in case r of
           Succeeds tree \<Rightarrow> (Inr (Repository (calls s) path), s')
         | Fails x tree \<Rightarrow> (Inl x, s'))"

definition getRemote :: "repository \<Rightarrow> string \<Rightarrow> state \<Rightarrow> (thrown + remote) \<times> state" where
  "getRemote repo name s =
     (let s' = next_call (GetRemote name) s
      in case es_git s (calls s) of
           Succeeds tree \<Rightarrow> (Inr (Remote repo name), s')
         | Fails x tree \<Rightarrow> (Inl x, s'))"

fun is_File :: "string \<times> node \<Rightarrow> bool" where
  "is_File (rel, File text) = True"
| "is_File (rel, Dir) = False"

definition fetch :: "remote \<Rightarrow> string list \<Rightarrow> state \<Rightarrow> (thrown + unit) \<times> state" where
  "fetch rem refspecs s =
     (case rem of Remote repo name \<Rightarrow>
        (let r = es_git s (calls s);
             s' = (next_call Fetch s)
                    \<lparr>disk := plant (workdir repo @ ''/.git'') (filter is_File (leaves r)) (disk s)\<rparr>
         in case r of
              Succeeds tree \<Rightarrow> (Inr (), s')
            | Fails x tree \<Rightarrow> (Inl x, s')))"

definition openRepository :: "string \<Rightarrow> state \<Rightarrow> (thrown + repository) \<times> state" where
  "openRepository path s =
     (let s' = next_call (OpenRepository path) s
      in case es_git s (calls s) of
           Succeeds tree \<Rightarrow> (Inr (Repository (calls s) path), s')
         | Fails x tree \<Rightarrow> (Inl x, s'))"

subsection \<open>The module\<close>

definition FEP_REPO_URL :: string where
  "FEP_REPO_URL = ''https://codeberg.org/fediverse/fep.git''"

definition MAX_RETRIES :: nat where
  "MAX_RETRIES = 3"

definition BASE_DELAY_MS :: nat where
  "BASE_DELAY_MS = 1000"

text \<open>The decimal rendering of a number inside a template string.\<close>

function decimal :: "nat \<Rightarrow> string" where
  "decimal n = (if n < 10 then [''0123456789'' ! n] else decimal (n div 10) @ [''0123456789'' ! (n mod 10)])"
  by pat_completeness auto

termination
  by (relation "measure id") auto

declare decimal.simps [simp del]

definition createTempDir :: "state \<Rightarrow> (thrown + string) \<times> state" where
  "createTempDir s = Deno_makeTempDir ''fep-mcp-'' s"

definition cleanupOldRepo :: "string \<Rightarrow> state \<Rightarrow> state" where
  "cleanupOldRepo path s =
     (case Deno_remove path s of
        (Inr u, s') \<Rightarrow> s'
      | (Inl error, s') \<Rightarrow>
          if \<not> instanceof_NotFound error
          then console_error (''Warning: Failed to cleanup old repo at '' @ path @ '': '' @ String error) s'
          else s')"

definition delay :: "nat \<Rightarrow> state \<Rightarrow> state" where
  "delay ms s = record_call (SetTimeout ms) s"

text \<open>
  The loop of \<open>cloneWithRetry\<close>, with its two variables \<open>attempt\<close> and \<open>lastError\<close>; the
  \<open>throw\<close> after the loop is its last branch. The \<open>catch\<close> block is \<open>clone_failed\<close>, applied to
  the value \<open>lastError\<close> has just been given.
\<close>

definition as_Error :: "thrown \<Rightarrow> thrown" where
  "as_Error error = (if instanceof_Error error then error else Error (String error))"

definition clone_failed :: "nat \<Rightarrow> thrown \<Rightarrow> string \<Rightarrow> state \<Rightarrow> state" where
  "clone_failed attempt lastError destPath s =
     (let s1 = console_error (''Clone attempt '' @ decimal attempt @ '' failed: ''
                                @ message lastError) s
      in if attempt < MAX_RETRIES then
           (let delayMs = BASE_DELAY_MS * 2 ^ (attempt - 1) in
            cleanupOldRepo destPath
              (delay delayMs (console_error (''Retrying in '' @ decimal delayMs @ ''ms...'') s1)))
         else s1)"

function cloneWithRetry_loop ::
  "nat \<Rightarrow> thrown option \<Rightarrow> string \<Rightarrow> state \<Rightarrow> (thrown + repository) \<times> state" where
  "cloneWithRetry_loop attempt lastError destPath s =
     (if attempt \<le> MAX_RETRIES then
        (case cloneRepository FEP_REPO_URL destPath
                (console_error (''Cloning FEP repository (attempt '' @ decimal attempt @ ''/''
                                  @ decimal MAX_RETRIES @ '')...'') s) of
           (Inr repo, s1) \<Rightarrow> (Inr repo, console_error ''FEP repository cloned successfully.'' s1)
         | (Inl error, s1) \<Rightarrow>
             cloneWithRetry_loop (attempt + 1) (Some (as_Error error)) destPath
               (clone_failed attempt (as_Error error) destPath s1))
      else
        (Inl (Error (''Failed to clone FEP repository after '' @ decimal MAX_RETRIES
                       @ '' attempts: ''
                       @ (case lastError of None \<Rightarrow> ''undefined'' | Some e \<Rightarrow> message e))), s))"
  by pat_completeness auto

termination
  by (relation "measure (\<lambda>(attempt, lastError, destPath, s). Suc MAX_RETRIES - attempt)") auto

declare cloneWithRetry_loop.simps [simp del]

definition cloneWithRetry :: "string \<Rightarrow> state \<Rightarrow> (thrown + repository) \<times> state" where
  "cloneWithRetry destPath s = cloneWithRetry_loop 1 None destPath s"

text \<open>
  The block at the head of \<open>initializeRepository\<close> (\<open>// Clean up previous repo if exists\<close>).
\<close>

definition cleanup_previous :: "state \<Rightarrow> state" where
  "cleanup_previous s =
     (if truthy (currentRepoPath s)
      then (cleanupOldRepo (template (currentRepoPath s)) s)
             \<lparr>currentRepo := None, currentRepoPath := None\<rparr>
      else s)"

definition initializeRepository :: "state \<Rightarrow> (thrown + string) \<times> state" where
  "initializeRepository s =
     (case createTempDir (cleanup_previous s) of
        (Inl error, s2) \<Rightarrow> (Inl error, s2)
      | (Inr repoPath, s2) \<Rightarrow>
          (case cloneWithRetry repoPath s2 of
             (Inl error, s3) \<Rightarrow> (Inl error, s3)
           | (Inr repo, s3) \<Rightarrow>
               (Inr repoPath, s3\<lparr>currentRepo := Some repo, currentRepoPath := Some repoPath\<rparr>)))"

definition getRepositoryPath :: "state \<Rightarrow> string option" where
  "getRepositoryPath s = currentRepoPath s"

definition NOT_INITIALIZED :: thrown where
  "NOT_INITIALIZED = Error ''Repository not initialized. Call initializeRepository() first.''"

text \<open>The \<open>try\<close> block of \<open>refreshRepository\<close>.\<close>

definition refresh_try :: "repository \<Rightarrow> state \<Rightarrow> (thrown + unit) \<times> state" where
  "refresh_try repo s =
     (case getRemote repo ''origin'' (console_error ''Fetching latest FEP documents...'' s) of
        (Inl error, s1) \<Rightarrow> (Inl error, s1)
      | (Inr rem, s1) \<Rightarrow>
          (case fetch rem [] s1 of
             (Inl error, s2) \<Rightarrow> (Inl error, s2)
           | (Inr u, s2) \<Rightarrow>
               (case openRepository (template (currentRepoPath s2)) s2 of
                  (Inl error, s3) \<Rightarrow> (Inl error, s3)
                | (Inr repo', s3) \<Rightarrow>
                    (Inr (), console_error ''FEP repository refreshed successfully.''
                               (s3\<lparr>currentRepo := Some repo'\<rparr>)))))"

definition refreshRepository :: "state \<Rightarrow> (thrown + unit) \<times> state" where
  "refreshRepository s =
     (case currentRepo s of
        None \<Rightarrow> (Inl NOT_INITIALIZED, s)
      | Some repo \<Rightarrow>
          if \<not> truthy (currentRepoPath s) then (Inl NOT_INITIALIZED, s)
          else
            (case refresh_try repo s of
               (Inr u, s') \<Rightarrow> (Inr (), s')
             | (Inl error, s') \<Rightarrow>
                 (let msg = (if instanceof_Error error then message error else String error)
                  in (Inl (Error (''Failed to refresh repository: '' @ msg)), s'))))"

definition readFile :: "string \<Rightarrow> state \<Rightarrow> (thrown + string) \<times> state" where
  "readFile relativePath s =
     (if \<not> truthy (currentRepoPath s) then (Inl NOT_INITIALIZED, s)
      else
        (let fullPath = template (currentRepoPath s) @ ''/'' @ relativePath in
         case Deno_readTextFile fullPath s of
           (Inr text, s') \<Rightarrow> (Inr text, s')
         | (Inl error, s') \<Rightarrow>
             if instanceof_NotFound error
             then (Inl (Error (''File not found: '' @ relativePath)), s')
             else (Inl error, s')))"

definition fileExists :: "string \<Rightarrow> state \<Rightarrow> (thrown + bool) \<times> state" where
  "fileExists relativePath s =
     (if \<not> truthy (currentRepoPath s) then (Inr False, s)
      else
        (let fullPath = template (currentRepoPath s) @ ''/'' @ relativePath in
         case Deno_stat fullPath s of
           (Inr info, s') \<Rightarrow> (Inr True, s')
         | (Inl error, s') \<Rightarrow> (Inr False, s')))"

definition listDirectory :: "string \<Rightarrow> state \<Rightarrow> (thrown + string list) \<times> state" where
  "listDirectory relativePath s =
     (if \<not> truthy (currentRepoPath s) then (Inl NOT_INITIALIZED, s)
      else
        (let fullPath = template (currentRepoPath s) @ ''/'' @ relativePath in
         case Deno_readDir fullPath s of
           (Inr entries, s') \<Rightarrow> (Inr entries, s')
         | (Inl error, s') \<Rightarrow>
             if instanceof_NotFound error
             then (Inl (Error (''Directory not found: '' @ relativePath)), s')
             else (Inl error, s')))"

definition cleanupRepository :: "state \<Rightarrow> (thrown + unit) \<times> state" where
  "cleanupRepository s =
     (if truthy (currentRepoPath s)
      then (Inr (), (cleanupOldRepo (template (currentRepoPath s)) s)
                      \<lparr>currentRepo := None, currentRepoPath := None\<rparr>)
      else (Inr (), s))"

subsection \<open>The states of the mirror handle\<close>

definition UNINITIALIZED :: "state \<Rightarrow> bool" where
  "UNINITIALIZED s \<longleftrightarrow> currentRepo s = None \<and> currentRepoPath s = None"

definition READY :: "state \<Rightarrow> bool" where
  "READY s \<longleftrightarrow> currentRepo s \<noteq> None \<and> truthy (currentRepoPath s)"

definition handle_invariant :: "state \<Rightarrow> bool" where
  "handle_invariant s \<longleftrightarrow> (currentRepoPath s \<noteq> None) = (currentRepo s \<noteq> None)"

subsection \<open>Notions used in the statements\<close>

text \<open>The state after the first console line of a turn of the loop.\<close>

definition announced :: "nat \<Rightarrow> state \<Rightarrow> state" where
  "announced attempt s =
     console_error (''Cloning FEP repository (attempt '' @ decimal attempt @ ''/''
                      @ decimal MAX_RETRIES @ '')...'') s"

fun is_clone :: "event \<Rightarrow> bool" where
  "is_clone (CloneRepository url path) = True"
| "is_clone e = False"

fun waited :: "event \<Rightarrow> nat" where
  "waited (SetTimeout ms) = ms"
| "waited e = 0"

text \<open>Nothing is on disk at a path or inside it.\<close>

definition vacant :: "string \<Rightarrow> (string \<times> node) list \<Rightarrow> bool" where
  "vacant p d \<longleftrightarrow> (\<forall>q. inside p q \<longrightarrow> map_of d q = None)"

text \<open>The calls made from state \<open>s\<close> on, in a later state \<open>s'\<close>.\<close>

definition calls_since :: "state \<Rightarrow> state \<Rightarrow> event list" where
  "calls_since s s' = drop (length (trace s)) (trace s')"

text \<open>The operations of the module, and the state each leaves behind.\<close>

datatype operation =
    Initialize | Refresh | ReadFile string | FileExists string | ListDirectory string | Teardown

fun perform :: "operation \<Rightarrow> state \<Rightarrow> state" where
  "perform Initialize s = snd (initializeRepository s)"
| "perform Refresh s = snd (refreshRepository s)"
| "perform (ReadFile p) s = snd (readFile p s)"
| "perform (FileExists p) s = snd (fileExists p s)"
| "perform (ListDirectory p) s = snd (listDirectory p s)"
| "perform Teardown s = snd (cleanupRepository s)"

subsection \<open>Example runs\<close>

text \<open>
  A small repository, and a machine with an empty temporary directory where every clone
  succeeds (\<open>online\<close>), every clone fails and leaves a partial pack behind (\<open>offline\<close>), or
  the third clone is the first to succeed (\<open>flaky\<close>).
\<close>

definition papers :: "(string \<times> node) list" where
  "papers = [(''.git'', Dir), (''.git/HEAD'', File ''ref: refs/heads/main''),
             (''index.json'', File ''[]''), (''fep'', Dir), (''fep/a4ed'', Dir),
             (''fep/a4ed/fep-a4ed.md'', File ''# FEP-a4ed'')]"

definition online :: state where
  "online = \<lparr>currentRepo = None, currentRepoPath = None, disk = [(''/tmp'', Dir)],
     faults = (\<lambda>e. None), tmpdir = ''/tmp'',
     rng = [[Hc, H0, Hf, Hf, He, He, H0, H1], [Hc, H0, Hf, Hf, He, He, H0, H2]],
     es_git = (\<lambda>n. Succeeds papers), calls = 0, trace = [], console = []\<rparr>"

definition offline :: state where
  "offline = online\<lparr>es_git := (\<lambda>n. if n = 0
       then Fails (Error ''connection reset'') (Some [(''.git'', Dir), (''.git/tmp_pack_1'', File ''PACK'')])
       else Fails (Error ''early EOF'') (Some [(''.git'', Dir), (''.git/tmp_pack_2'', File ''PACK'')]))\<rparr>"

definition flaky :: state where
  "flaky = online\<lparr>es_git := (\<lambda>n. if n = 0
       then Fails (Error ''connection reset'') (Some [(''.git'', Dir), (''.git/tmp_pack_1'', File ''PACK'')])
       else if n = 1 then Fails (Error ''connection timed out'') None
       else Succeeds papers)\<rparr>"

text \<open>The same machines with the removal of the first temporary directory refused.\<close>

definition refused :: "string \<Rightarrow> event \<Rightarrow> thrown option" where
  "refused p e = (if e = Remove p then Some (Deno_error PermissionDenied ''Permission denied (os error 13)'')
                  else None)"

definition stuck :: state where
  "stuck = offline\<lparr>faults := refused ''/tmp/fep-mcp-c0ffee01''\<rparr>"

definition pinned :: state where
  "pinned = online\<lparr>faults := refused ''/tmp/fep-mcp-c0ffee01''\<rparr>"

text \<open>
  The state after a successful initialize, and the same with a remote that cannot be reached
  and with a repository that cannot be reopened.
\<close>

definition mirrored :: state where
  "mirrored = snd (initializeRepository online)"

definition unreachable :: state where
  "unreachable = mirrored\<lparr>es_git := (\<lambda>n. if n = 1 then Succeeds []
       else Fails (Error ''failed to resolve address for codeberg.org'') None)\<rparr>"

definition unopenable :: state where
  "unopenable = mirrored\<lparr>es_git := (\<lambda>n. if n \<le> 2 then Succeeds [(''FETCH_HEAD'', File ''0a1b2c'')]
       else Fails (Thrown_value ''could not find repository'') None)\<rparr>"

section \<open>Basic facts\<close>

subsection \<open>What each call does to the fields of the state\<close>

lemma record_call_fields [simp]:
  "currentRepo (record_call e s) = currentRepo s"
  "currentRepoPath (record_call e s) = currentRepoPath s"
  "disk (record_call e s) = disk s"
  "faults (record_call e s) = faults s"
  "tmpdir (record_call e s) = tmpdir s"
  "rng (record_call e s) = rng s"
  "es_git (record_call e s) = es_git s"
  "calls (record_call e s) = calls s"
  "trace (record_call e s) = trace s @ [e]"
  "console (record_call e s) = console s"
  by (simp_all add: record_call_def)

lemma console_error_fields [simp]:
  "currentRepo (console_error l s) = currentRepo s"
  "currentRepoPath (console_error l s) = currentRepoPath s"
  "disk (console_error l s) = disk s"
  "faults (console_error l s) = faults s"
  "tmpdir (console_error l s) = tmpdir s"
  "rng (console_error l s) = rng s"
  "es_git (console_error l s) = es_git s"
  "calls (console_error l s) = calls s"
  "trace (console_error l s) = trace s"
  "console (console_error l s) = console s @ [l]"
  by (simp_all add: console_error_def)

lemma delay_fields [simp]:
  "currentRepo (delay ms s) = currentRepo s"
  "currentRepoPath (delay ms s) = currentRepoPath s"
  "disk (delay ms s) = disk s"
  "faults (delay ms s) = faults s"
  "tmpdir (delay ms s) = tmpdir s"
  "rng (delay ms s) = rng s"
  "es_git (delay ms s) = es_git s"
  "calls (delay ms s) = calls s"
  "trace (delay ms s) = trace s @ [SetTimeout ms]"
  "console (delay ms s) = console s"
  by (simp_all add: delay_def)

lemma next_call_fields [simp]:
  "currentRepo (next_call e s) = currentRepo s"
  "currentRepoPath (next_call e s) = currentRepoPath s"
  "disk (next_call e s) = disk s"
  "faults (next_call e s) = faults s"
  "tmpdir (next_call e s) = tmpdir s"
  "rng (next_call e s) = rng s"
  "es_git (next_call e s) = es_git s"
  "calls (next_call e s) = Suc (calls s)"
  "trace (next_call e s) = trace s @ [e]"
  "console (next_call e s) = console s"
  by (simp_all add: next_call_def)

lemma announced_fields [simp]:
  "currentRepo (announced a s) = currentRepo s"
  "currentRepoPath (announced a s) = currentRepoPath s"
  "disk (announced a s) = disk s"
  "faults (announced a s) = faults s"
  "tmpdir (announced a s) = tmpdir s"
  "rng (announced a s) = rng s"
  "es_git (announced a s) = es_git s"
  "calls (announced a s) = calls s"
  "trace (announced a s) = trace s"
  by (simp_all add: announced_def)

lemma cleanupOldRepo_fields [simp]:
  "currentRepo (cleanupOldRepo p s) = currentRepo s"
  "currentRepoPath (cleanupOldRepo p s) = currentRepoPath s"
  "faults (cleanupOldRepo p s) = faults s"
  "tmpdir (cleanupOldRepo p s) = tmpdir s"
  "rng (cleanupOldRepo p s) = rng s"
  "es_git (cleanupOldRepo p s) = es_git s"
  "calls (cleanupOldRepo p s) = calls s"
  "trace (cleanupOldRepo p s) = trace s @ [Remove p]"
  by (simp_all add: cleanupOldRepo_def Deno_remove_def Let_def split: option.split)

lemma disk_cleanupOldRepo:
  "disk (cleanupOldRepo p s) =
     (if faults s (Remove p) = None \<and> map_of (disk s) p \<noteq> None
      then filter (\<lambda>(q, n). \<not> inside p q) (disk s) else disk s)"
  by (auto simp add: cleanupOldRepo_def Deno_remove_def Let_def split: option.split)

lemma snd_cloneRepository_fields [simp]:
  "currentRepo (snd (cloneRepository url p s)) = currentRepo s"
  "currentRepoPath (snd (cloneRepository url p s)) = currentRepoPath s"
  "disk (snd (cloneRepository url p s)) = cloned (es_git s (calls s)) p (disk s)"
  "faults (snd (cloneRepository url p s)) = faults s"
  "tmpdir (snd (cloneRepository url p s)) = tmpdir s"
  "rng (snd (cloneRepository url p s)) = rng s"
  "es_git (snd (cloneRepository url p s)) = es_git s"
  "calls (snd (cloneRepository url p s)) = Suc (calls s)"
  "trace (snd (cloneRepository url p s)) = trace s @ [CloneRepository url p]"
  "console (snd (cloneRepository url p s)) = console s"
  by (simp_all add: cloneRepository_def Let_def split: response.split)

lemma clone_failed_fields [simp]:
  "currentRepo (clone_failed a e p s) = currentRepo s"
  "currentRepoPath (clone_failed a e p s) = currentRepoPath s"
  "faults (clone_failed a e p s) = faults s"
  "tmpdir (clone_failed a e p s) = tmpdir s"
  "rng (clone_failed a e p s) = rng s"
  "es_git (clone_failed a e p s) = es_git s"
  "calls (clone_failed a e p s) = calls s"
  by (simp_all add: clone_failed_def Let_def)

lemma trace_clone_failed:
  "trace (clone_failed a e p s) =
     (if a < MAX_RETRIES then trace s @ [SetTimeout (BASE_DELAY_MS * 2 ^ (a - 1)), Remove p] else trace s)"
  by (simp add: clone_failed_def Let_def)

lemma disk_clone_failed:
  "disk (clone_failed a e p s) =
     (if a < MAX_RETRIES \<and> faults s (Remove p) = None \<and> map_of (disk s) p \<noteq> None
      then filter (\<lambda>(q, n). \<not> inside p q) (disk s) else disk s)"
  by (simp add: clone_failed_def Let_def disk_cleanupOldRepo)

lemma cleanup_previous_fields [simp]:
  "faults (cleanup_previous s) = faults s"
  "tmpdir (cleanup_previous s) = tmpdir s"
  "rng (cleanup_previous s) = rng s"
  "es_git (cleanup_previous s) = es_git s"
  "calls (cleanup_previous s) = calls s"
  by (simp_all add: cleanup_previous_def)

lemma cleanup_previous_handle:
  "UNINITIALIZED s \<or> READY s \<Longrightarrow> UNINITIALIZED (cleanup_previous s)"
  by (auto simp add: cleanup_previous_def UNINITIALIZED_def READY_def)

lemma cleanup_previous_trace:
  "\<exists>evs. trace (cleanup_previous s) = trace s @ evs \<and> filter is_clone evs = [] \<and>
         sum_list (map waited evs) = 0"
  by (simp add: cleanup_previous_def)

lemma calls_since_append [simp]: "trace s' = trace s @ evs \<Longrightarrow> calls_since s s' = evs"
  by (simp add: calls_since_def)

subsection \<open>Paths and the disk\<close>

lemma map_of_checkout_root [simp]: "map_of (checkout p tree @ d) p = Some Dir"
  by (simp add: checkout_def)

lemma map_of_filter_inside:
  "inside p q \<Longrightarrow> map_of (filter (\<lambda>(q, n). \<not> inside p q) d) q = None"
  by (induction d) auto

lemma map_of_filter_outside:
  "\<not> inside p q \<Longrightarrow> map_of (filter (\<lambda>(q, n). \<not> inside p q) d) q = map_of d q"
  by (induction d) auto

lemma map_of_checkout_outside:
  "\<not> inside p q \<Longrightarrow> map_of (checkout p tree @ d) q = map_of d q"
proof -
  assume out: "\<not> inside p q"
  have "map_of (checkout p tree) q = None"
  proof (cases "map_of (checkout p tree) q")
    case (Some n)
    then have "(q, n) \<in> set (checkout p tree)" by (rule map_of_SomeD)
    then have "inside p q" by (auto simp add: checkout_def plant_def inside_def)
    with out show ?thesis by simp
  qed simp
  then show ?thesis by (simp add: map_add_def)
qed

lemma map_of_cloned_outside: "\<not> inside p q \<Longrightarrow> map_of (cloned r p d) q = map_of d q"
  by (cases "(r, p, d)" rule: cloned.cases) (simp_all add: map_of_checkout_outside del: map_of_append)

lemma vacant_filter: "vacant p (filter (\<lambda>(q, n). \<not> inside p q) d)"
  by (simp add: vacant_def map_of_filter_inside)

lemma map_of_over_vacant: "vacant p d \<Longrightarrow> inside p q \<Longrightarrow> map_of (a @ d) q = map_of a q"
  by (simp add: vacant_def map_add_def split: option.split)

lemma cloned_there_or_vacant:
  "map_of d p \<noteq> None \<or> vacant p d \<Longrightarrow>
   map_of (cloned r p d) p \<noteq> None \<or> vacant p (cloned r p d)"
  by (cases "(r, p, d)" rule: cloned.cases) (simp_all add: checkout_def)

lemma map_of_plant_files:
  assumes "\<forall>f\<in>set files. is_File f" and "map_of d q = Some (File text)"
  shows "\<exists>text'. map_of (plant root files d) q = Some (File text')"
proof (cases "map_of (map (\<lambda>(rel, n). (root @ ''/'' @ rel, n)) files) q")
  case None
  with assms(2) show ?thesis by (simp add: plant_def map_add_def)
next
  case (Some n)
  then have "(q, n) \<in> set (map (\<lambda>(rel, n). (root @ ''/'' @ rel, n)) files)"
    by (rule map_of_SomeD)
  then obtain rel where "(rel, n) \<in> set files" by auto
  with assms(1) have "is_File (rel, n)" by blast
  then obtain text' where "n = File text'" by (cases n) auto
  with Some show ?thesis by (simp add: plant_def map_add_def)
qed

text \<open>Temporary directories drawn with different names do not overlap.\<close>

lemma hexchar_inj: "hexchar a = hexchar b \<Longrightarrow> a = b"
  by (cases a; cases b; simp)

lemma no_slash_in_name: "CHR ''/'' \<notin> set (map hexchar u)"
proof -
  have "CHR ''/'' \<noteq> hexchar a" for a by (cases a) simp_all
  then show ?thesis by (induction u) simp_all
qed

lemma map_hexchar_inj: "map hexchar u = map hexchar v \<Longrightarrow> u = v"
proof (induction u arbitrary: v)
  case Nil
  then show ?case by simp
next
  case (Cons a u)
  then show ?case by (cases v) (auto dest: hexchar_inj)
qed

lemma separated_prefix:
  "c \<notin> set a \<Longrightarrow> c \<notin> set b \<Longrightarrow> prefix (a @ c # x) (b @ c # y) \<Longrightarrow> a = b"
proof (induction a arbitrary: b)
  case Nil
  then show ?case by (cases b) auto
next
  case (Cons a0 a)
  then show ?case by (cases b) auto
qed

lemma inside_iff_prefix: "inside p q \<longleftrightarrow> prefix (p @ ''/'') (q @ ''/'')"
proof
  assume "inside p q"
  then show "prefix (p @ ''/'') (q @ ''/'')"
    by (auto simp add: inside_def intro: prefix_prefix)
next
  assume "prefix (p @ ''/'') (q @ ''/'')"
  then obtain r where r: "q @ ''/'' = (p @ ''/'') @ r" by (auto simp add: prefix_def)
  show "inside p q"
  proof (cases r rule: rev_cases)
    case Nil
    with r show ?thesis by (simp add: inside_def)
  next
    case (snoc r' c)
    with r have "q = (p @ ''/'') @ r'" by simp
    then show ?thesis by (simp add: inside_def)
  qed
qed

lemma temp_paths_apart:
  assumes "inside (temp_path s pre u) q" and "inside (temp_path s pre v) q"
  shows "u = v"
proof -
  let ?b = "tmpdir s @ ''/'' @ pre"
  note no = no_slash_in_name [of u] no_slash_in_name [of v]
  from assms have "prefix (temp_path s pre u @ ''/'') (q @ ''/'')"
    "prefix (temp_path s pre v @ ''/'') (q @ ''/'')"
    by (simp_all add: inside_iff_prefix)
  then have "prefix (temp_path s pre u @ ''/'') (temp_path s pre v @ ''/'') \<or>
             prefix (temp_path s pre v @ ''/'') (temp_path s pre u @ ''/'')"
    by (rule prefix_same_cases)
  then have "prefix (map hexchar u @ CHR ''/'' # []) (map hexchar v @ CHR ''/'' # []) \<or>
             prefix (map hexchar v @ CHR ''/'' # []) (map hexchar u @ CHR ''/'' # [])"
    by (simp add: temp_path_def)
  with no have "map hexchar u = map hexchar v"
    using separated_prefix by metis
  then show ?thesis by (rule map_hexchar_inj)
qed

lemma temp_path_not_empty [simp]: "temp_path s pre u \<noteq> []"
  by (simp add: temp_path_def)

subsection \<open>Temporary directories\<close>

lemma createTempDir_Inr:
  assumes "createTempDir s = (Inr p, s')"
  shows "currentRepo s' = currentRepo s" "currentRepoPath s' = currentRepoPath s"
    "faults s' = faults s" "tmpdir s' = tmpdir s" "es_git s' = es_git s" "calls s' = calls s"
    "trace s' = trace s @ [MakeTempDir p]" "disk s' = (p, Dir) # disk s" "console s' = console s"
    "\<exists>u skipped. rng s = skipped @ u # rng s' \<and> p = temp_path s ''fep-mcp-'' u"
proof -
  let ?P = "\<lambda>u. exists_on_disk s (temp_path s ''fep-mcp-'' u)"
  from assms obtain u us where d: "dropWhile ?P (rng s) = u # us"
    by (cases "dropWhile ?P (rng s)") (simp_all add: createTempDir_def Deno_makeTempDir_def)
  from assms d have eq: "p = temp_path s ''fep-mcp-'' u"
    "s' = (record_call (MakeTempDir p) (s\<lparr>rng := us\<rparr>))\<lparr>disk := (p, Dir) # disk s\<rparr>"
    by (cases "faults s (MakeTempDir (temp_path s ''fep-mcp-'' u))";
        simp add: createTempDir_def Deno_makeTempDir_def Let_def)+
  from eq show "currentRepo s' = currentRepo s" "currentRepoPath s' = currentRepoPath s"
    "faults s' = faults s" "tmpdir s' = tmpdir s" "es_git s' = es_git s" "calls s' = calls s"
    "trace s' = trace s @ [MakeTempDir p]" "disk s' = (p, Dir) # disk s" "console s' = console s"
    by simp_all
  have "rng s = takeWhile ?P (rng s) @ dropWhile ?P (rng s)" by simp
  with d eq show "\<exists>u skipped. rng s = skipped @ u # rng s' \<and> p = temp_path s ''fep-mcp-'' u"
    by (intro exI [of _ u] exI [of _ "takeWhile ?P (rng s)"]) simp
qed

lemma createTempDir_Inl:
  assumes "createTempDir s = (Inl e, s')"
  shows "currentRepo s' = currentRepo s" "currentRepoPath s' = currentRepoPath s"
    "faults s' = faults s" "tmpdir s' = tmpdir s" "es_git s' = es_git s" "calls s' = calls s"
    "disk s' = disk s"
  using assms
  by (cases "dropWhile (\<lambda>u. exists_on_disk s (temp_path s ''fep-mcp-'' u)) (rng s)";
      simp add: createTempDir_def Deno_makeTempDir_def Let_def split: option.splits; fastforce)+

lemma createTempDir_trace:
  "\<exists>evs. trace (snd (createTempDir s)) = trace s @ evs \<and> filter is_clone evs = [] \<and>
         sum_list (map waited evs) = 0"
  by (simp add: createTempDir_def Deno_makeTempDir_def Let_def split: list.split option.split)

subsection \<open>The retry loop\<close>

lemma decimal_3 [simp]: "decimal MAX_RETRIES = ''3''"
  by (simp add: MAX_RETRIES_def decimal.simps)

text \<open>A removal that is not refused leaves nothing at the destination.\<close>

lemma clone_failed_vacant:
  assumes "a < MAX_RETRIES" and "faults s (Remove p) = None"
    and "map_of (disk s) p \<noteq> None \<or> vacant p (disk s)"
  shows "vacant p (disk (clone_failed a e p s))"
proof (cases "map_of (disk s) p = None")
  case True
  with assms show ?thesis by (simp add: disk_clone_failed)
next
  case False
  with assms(1,2) have "disk (clone_failed a e p s) = filter (\<lambda>(q, n). \<not> inside p q) (disk s)"
    by (simp add: disk_clone_failed)
  then show ?thesis by (simp add: vacant_filter)
qed

text \<open>One turn of the loop, by the outcome of its clone.\<close>

lemma loop_done:
  "\<not> attempt \<le> MAX_RETRIES \<Longrightarrow>
   cloneWithRetry_loop attempt lastError destPath s =
     (Inl (Error (''Failed to clone FEP repository after '' @ decimal MAX_RETRIES @ '' attempts: ''
                    @ (case lastError of None \<Rightarrow> ''undefined'' | Some e \<Rightarrow> message e))), s)"
  by (subst cloneWithRetry_loop.simps) simp

lemma loop_Succeeds:
  "attempt \<le> MAX_RETRIES \<Longrightarrow> es_git s (calls s) = Succeeds tree \<Longrightarrow>
   cloneWithRetry_loop attempt lastError destPath s =
     (Inr (Repository (calls s) destPath),
      console_error ''FEP repository cloned successfully.''
        (snd (cloneRepository FEP_REPO_URL destPath (announced attempt s))))"
  by (subst cloneWithRetry_loop.simps) (simp add: cloneRepository_def Let_def announced_def)

lemma loop_Fails:
  "attempt \<le> MAX_RETRIES \<Longrightarrow> es_git s (calls s) = Fails x tree \<Longrightarrow>
   cloneWithRetry_loop attempt lastError destPath s =
     cloneWithRetry_loop (Suc attempt) (Some (as_Error x)) destPath
       (clone_failed attempt (as_Error x) destPath
          (snd (cloneRepository FEP_REPO_URL destPath (announced attempt s))))"
  by (subst cloneWithRetry_loop.simps) (simp add: cloneRepository_def Let_def announced_def)

text \<open>The loop leaves the module variables and the outside world's script alone.\<close>

lemma cloneWithRetry_loop_frame:
  "currentRepo (snd (cloneWithRetry_loop a l p s)) = currentRepo s \<and>
   currentRepoPath (snd (cloneWithRetry_loop a l p s)) = currentRepoPath s \<and>
   faults (snd (cloneWithRetry_loop a l p s)) = faults s \<and>
   tmpdir (snd (cloneWithRetry_loop a l p s)) = tmpdir s \<and>
   rng (snd (cloneWithRetry_loop a l p s)) = rng s \<and>
   es_git (snd (cloneWithRetry_loop a l p s)) = es_git s"
proof (induction "Suc MAX_RETRIES - a" arbitrary: a l s)
  case 0
  then have "\<not> a \<le> MAX_RETRIES" by simp
  then show ?case by (simp add: loop_done)
next
  case (Suc k)
  then have le: "a \<le> MAX_RETRIES" by simp
  show ?case
  proof (cases "es_git s (calls s)")
    case (Succeeds tree)
    with le show ?thesis by (simp add: loop_Succeeds)
  next
    case (Fails x tree)
    from Suc have "k = Suc MAX_RETRIES - Suc a" by simp
    from Suc.hyps(1) [OF this] show ?thesis
      using le Fails by (simp add: loop_Fails)
  qed
qed

text \<open>The calls a turn of the loop and the whole loop add to the trace.\<close>

lemma cloneWithRetry_loop_trace:
  "\<exists>evs. trace (snd (cloneWithRetry_loop a l p s)) = trace s @ evs \<and>
         length (filter is_clone evs) \<le> Suc MAX_RETRIES - a"
proof (induction "Suc MAX_RETRIES - a" arbitrary: a l s)
  case 0
  then have "\<not> a \<le> MAX_RETRIES" by simp
  then show ?case by (simp add: loop_done)
next
  case (Suc k)
  then have le: "a \<le> MAX_RETRIES" by simp
  show ?case
  proof (cases "es_git s (calls s)")
    case (Succeeds tree)
    with le show ?thesis by (simp add: loop_Succeeds)
  next
    case (Fails x tree)
    let ?s' = "clone_failed a (as_Error x) p (snd (cloneRepository FEP_REPO_URL p (announced a s)))"
    from Suc have "k = Suc MAX_RETRIES - Suc a" by simp
    from Suc.hyps(1) [OF this, of "Some (as_Error x)" ?s']
    obtain evs where evs: "trace (snd (cloneWithRetry_loop (Suc a) (Some (as_Error x)) p ?s')) = trace ?s' @ evs"
      "length (filter is_clone evs) \<le> Suc MAX_RETRIES - Suc a"
      by blast
    have "\<exists>more. trace ?s' = trace s @ CloneRepository FEP_REPO_URL p # more \<and>
                 filter is_clone more = []"
      by (cases "a < MAX_RETRIES") (simp_all add: trace_clone_failed)
    then obtain more where more: "trace ?s' = trace s @ CloneRepository FEP_REPO_URL p # more"
      "filter is_clone more = []"
      by blast
    have "trace (snd (cloneWithRetry_loop a l p s)) = trace s @ (CloneRepository FEP_REPO_URL p # more @ evs)"
      using le Fails evs(1) more(1) by (simp add: loop_Fails)
    moreover have "length (filter is_clone (CloneRepository FEP_REPO_URL p # more @ evs)) \<le> Suc MAX_RETRIES - a"
      using evs(2) more(2) le by simp
    ultimately show ?thesis by blast
  qed
qed

text \<open>The loop touches nothing outside its destination.\<close>

lemma clone_failed_outside:
  "\<not> inside p q \<Longrightarrow> map_of (disk (clone_failed a e p s)) q = map_of (disk s) q"
  by (simp add: disk_clone_failed map_of_filter_outside)

lemma cloneWithRetry_loop_outside:
  "\<not> inside p q \<Longrightarrow> map_of (disk (snd (cloneWithRetry_loop a l p s))) q = map_of (disk s) q"
proof (induction "Suc MAX_RETRIES - a" arbitrary: a l s)
  case 0
  then have "\<not> a \<le> MAX_RETRIES" by simp
  then show ?case by (simp add: loop_done)
next
  case (Suc k)
  then have le: "a \<le> MAX_RETRIES" by simp
  show ?case
  proof (cases "es_git s (calls s)")
    case (Succeeds tree)
    with le Suc.prems show ?thesis
      by (simp add: loop_Succeeds map_of_cloned_outside del: cloned.simps)
  next
    case (Fails x tree)
    let ?c = "snd (cloneRepository FEP_REPO_URL p (announced a s))"
    from Suc have "k = Suc MAX_RETRIES - Suc a" by simp
    from Suc.hyps(1) [OF this Suc.prems]
    have "map_of (disk (snd (cloneWithRetry_loop a l p s))) q =
          map_of (disk (clone_failed a (as_Error x) p ?c)) q"
      using le Fails by (simp add: loop_Fails)
    also have "\<dots> = map_of (disk ?c) q"
      using Suc.prems by (rule clone_failed_outside)
    also have "\<dots> = map_of (disk s) q"
      using Suc.prems by (simp add: map_of_cloned_outside del: cloned.simps)
    finally show ?thesis .
  qed
qed

text \<open>A clone that succeeded left its checkout on top of the disk.\<close>

lemma cloneWithRetry_loop_Inr:
  "fst (cloneWithRetry_loop a l p s) = Inr repo \<Longrightarrow>
   \<exists>tree rest. disk (snd (cloneWithRetry_loop a l p s)) = checkout p tree @ rest"
proof (induction "Suc MAX_RETRIES - a" arbitrary: a l s)
  case 0
  then have "\<not> a \<le> MAX_RETRIES" by simp
  with 0 show ?case by (simp add: loop_done)
next
  case (Suc k)
  then have le: "a \<le> MAX_RETRIES" by simp
  show ?case
  proof (cases "es_git s (calls s)")
    case (Succeeds tree)
    with le have "disk (snd (cloneWithRetry_loop a l p s)) = checkout p tree @ disk s"
      by (simp add: loop_Succeeds)
    then show ?thesis by blast
  next
    case (Fails x tree)
    from Suc have "k = Suc MAX_RETRIES - Suc a" by simp
    from Suc.hyps(1) [OF this] Suc.prems show ?thesis
      using le Fails by (simp add: loop_Fails)
  qed
qed

text \<open>Three failed attempts, whatever the two removals in between do.\<close>

lemma cloneWithRetry_three_failures_run:
  assumes "es_git s (calls s) = Fails x1 t1"
    and "es_git s (Suc (calls s)) = Fails x2 t2"
    and "es_git s (Suc (Suc (calls s))) = Fails x3 t3"
  shows "cloneWithRetry p s =
    (Inl (Error (''Failed to clone FEP repository after 3 attempts: '' @ message (as_Error x3))),
     clone_failed (Suc (Suc (Suc 0))) (as_Error x3) p
       (snd (cloneRepository FEP_REPO_URL p (announced (Suc (Suc (Suc 0)))
         (clone_failed (Suc (Suc 0)) (as_Error x2) p
            (snd (cloneRepository FEP_REPO_URL p (announced (Suc (Suc 0))
               (clone_failed (Suc 0) (as_Error x1) p
                  (snd (cloneRepository FEP_REPO_URL p (announced (Suc 0) s))))))))))))"
proof -
  let ?s1 = "clone_failed (Suc 0) (as_Error x1) p (snd (cloneRepository FEP_REPO_URL p (announced (Suc 0) s)))"
  let ?s2 = "clone_failed (Suc (Suc 0)) (as_Error x2) p
               (snd (cloneRepository FEP_REPO_URL p (announced (Suc (Suc 0)) ?s1)))"
  let ?s3 = "clone_failed (Suc (Suc (Suc 0))) (as_Error x3) p
               (snd (cloneRepository FEP_REPO_URL p (announced (Suc (Suc (Suc 0))) ?s2)))"
  have 1: "cloneWithRetry p s = cloneWithRetry_loop (Suc (Suc 0)) (Some (as_Error x1)) p ?s1"
    using assms(1) by (simp add: cloneWithRetry_def loop_Fails [where tree = t1] MAX_RETRIES_def)
  have c1: "es_git ?s1 (calls ?s1) = Fails x2 t2" using assms(2) by simp
  have 2: "cloneWithRetry_loop (Suc (Suc 0)) (Some (as_Error x1)) p ?s1 =
           cloneWithRetry_loop (Suc (Suc (Suc 0))) (Some (as_Error x2)) p ?s2"
    by (rule loop_Fails [OF _ c1]) (simp add: MAX_RETRIES_def)
  have c2: "es_git ?s2 (calls ?s2) = Fails x3 t3" using assms(3) by simp
  have 3: "cloneWithRetry_loop (Suc (Suc (Suc 0))) (Some (as_Error x2)) p ?s2 =
           cloneWithRetry_loop (Suc (Suc (Suc (Suc 0)))) (Some (as_Error x3)) p ?s3"
    by (rule loop_Fails [OF _ c2]) (simp add: MAX_RETRIES_def)
  have "\<not> Suc (Suc (Suc (Suc 0))) \<le> MAX_RETRIES" by (simp add: MAX_RETRIES_def)
  from loop_done [OF this]
  have 4: "cloneWithRetry_loop (Suc (Suc (Suc (Suc 0)))) (Some (as_Error x3)) p ?s3 =
      (Inl (Error (''Failed to clone FEP repository after 3 attempts: '' @ message (as_Error x3))), ?s3)"
    by simp
  show ?thesis by (simp only: 1 2 3 4)
qed

lemma cloneWithRetry_three_failures:
  assumes "es_git s (calls s) = Fails x1 t1"
    and "es_git s (Suc (calls s)) = Fails x2 t2"
    and "es_git s (Suc (Suc (calls s))) = Fails x3 t3"
  shows "fst (cloneWithRetry p s) =
           Inl (Error (''Failed to clone FEP repository after 3 attempts: '' @ message (as_Error x3)))"
    and "trace (snd (cloneWithRetry p s)) =
           trace s @ [CloneRepository FEP_REPO_URL p, SetTimeout 1000, Remove p,
                      CloneRepository FEP_REPO_URL p, SetTimeout 2000, Remove p,
                      CloneRepository FEP_REPO_URL p]"
    and "\<exists>rest. disk (snd (cloneWithRetry p s)) = cloned (Fails x3 t3) p rest"
proof -
  note run = cloneWithRetry_three_failures_run [OF assms, of p]
  show "fst (cloneWithRetry p s) =
           Inl (Error (''Failed to clone FEP repository after 3 attempts: '' @ message (as_Error x3)))"
    by (simp add: run)
  show "trace (snd (cloneWithRetry p s)) =
           trace s @ [CloneRepository FEP_REPO_URL p, SetTimeout 1000, Remove p,
                      CloneRepository FEP_REPO_URL p, SetTimeout 2000, Remove p,
                      CloneRepository FEP_REPO_URL p]"
    by (simp add: run trace_clone_failed MAX_RETRIES_def BASE_DELAY_MS_def)
  have "disk (snd (cloneWithRetry p s)) =
      cloned (Fails x3 t3) p (disk (clone_failed (Suc (Suc 0)) (as_Error x2) p
            (snd (cloneRepository FEP_REPO_URL p (announced (Suc (Suc 0))
               (clone_failed (Suc 0) (as_Error x1) p
                  (snd (cloneRepository FEP_REPO_URL p (announced (Suc 0) s)))))))))"
    using assms(3) by (simp add: run disk_clone_failed MAX_RETRIES_def del: cloned.simps)
  then show "\<exists>rest. disk (snd (cloneWithRetry p s)) = cloned (Fails x3 t3) p rest"
    by blast
qed

text \<open>Two failed attempts and a third that succeeds.\<close>

lemma cloneWithRetry_third_time:
  assumes "es_git s (calls s) = Fails x1 t1"
    and "es_git s (Suc (calls s)) = Fails x2 t2"
    and "es_git s (Suc (Suc (calls s))) = Succeeds tree"
  shows "cloneWithRetry p s =
    (Inr (Repository (Suc (Suc (calls s))) p),
     console_error ''FEP repository cloned successfully.''
       (snd (cloneRepository FEP_REPO_URL p (announced (Suc (Suc (Suc 0)))
         (clone_failed (Suc (Suc 0)) (as_Error x2) p
            (snd (cloneRepository FEP_REPO_URL p (announced (Suc (Suc 0))
               (clone_failed (Suc 0) (as_Error x1) p
                  (snd (cloneRepository FEP_REPO_URL p (announced (Suc 0) s))))))))))))"
proof -
  let ?s1 = "clone_failed (Suc 0) (as_Error x1) p (snd (cloneRepository FEP_REPO_URL p (announced (Suc 0) s)))"
  let ?s2 = "clone_failed (Suc (Suc 0)) (as_Error x2) p
               (snd (cloneRepository FEP_REPO_URL p (announced (Suc (Suc 0)) ?s1)))"
  have 1: "cloneWithRetry p s = cloneWithRetry_loop (Suc (Suc 0)) (Some (as_Error x1)) p ?s1"
    using assms(1) by (simp add: cloneWithRetry_def loop_Fails [where tree = t1] MAX_RETRIES_def)
  have c1: "es_git ?s1 (calls ?s1) = Fails x2 t2" using assms(2) by simp
  have 2: "cloneWithRetry_loop (Suc (Suc 0)) (Some (as_Error x1)) p ?s1 =
           cloneWithRetry_loop (Suc (Suc (Suc 0))) (Some (as_Error x2)) p ?s2"
    by (rule loop_Fails [OF _ c1]) (simp add: MAX_RETRIES_def)
  have c2: "es_git ?s2 (calls ?s2) = Succeeds tree" using assms(3) by simp
  have 3: "cloneWithRetry_loop (Suc (Suc (Suc 0))) (Some (as_Error x2)) p ?s2 =
      (Inr (Repository (calls ?s2) p),
       console_error ''FEP repository cloned successfully.''
         (snd (cloneRepository FEP_REPO_URL p (announced (Suc (Suc (Suc 0))) ?s2))))"
    by (rule loop_Succeeds [OF _ c2]) (simp add: MAX_RETRIES_def)
  show ?thesis by (simp only: 1 2 3) simp
qed

lemma cloneWithRetry_third_time_facts:
  assumes "es_git s (calls s) = Fails x1 t1"
    and "es_git s (Suc (calls s)) = Fails x2 t2"
    and "es_git s (Suc (Suc (calls s))) = Succeeds tree"
  shows "trace (snd (cloneWithRetry p s)) =
           trace s @ [CloneRepository FEP_REPO_URL p, SetTimeout 1000, Remove p,
                      CloneRepository FEP_REPO_URL p, SetTimeout 2000, Remove p,
                      CloneRepository FEP_REPO_URL p]"
    and "faults s (Remove p) = None \<Longrightarrow> map_of (disk s) p \<noteq> None \<or> vacant p (disk s) \<Longrightarrow>
           \<exists>rest. disk (snd (cloneWithRetry p s)) = checkout p tree @ rest \<and> vacant p rest"
proof -
  note run = cloneWithRetry_third_time [OF assms, of p]
  show "trace (snd (cloneWithRetry p s)) =
           trace s @ [CloneRepository FEP_REPO_URL p, SetTimeout 1000, Remove p,
                      CloneRepository FEP_REPO_URL p, SetTimeout 2000, Remove p,
                      CloneRepository FEP_REPO_URL p]"
    by (simp add: run trace_clone_failed MAX_RETRIES_def BASE_DELAY_MS_def)
  assume f: "faults s (Remove p) = None" and d: "map_of (disk s) p \<noteq> None \<or> vacant p (disk s)"
  let ?c1 = "snd (cloneRepository FEP_REPO_URL p (announced (Suc 0) s))"
  let ?s1 = "clone_failed (Suc 0) (as_Error x1) p ?c1"
  let ?c2 = "snd (cloneRepository FEP_REPO_URL p (announced (Suc (Suc 0)) ?s1))"
  let ?s2 = "clone_failed (Suc (Suc 0)) (as_Error x2) p ?c2"
  have "map_of (disk ?c1) p \<noteq> None \<or> vacant p (disk ?c1)"
    using cloned_there_or_vacant [OF d] by (simp del: cloned.simps)
  with f have "vacant p (disk ?s1)"
    by (intro clone_failed_vacant) (simp_all add: MAX_RETRIES_def del: cloned.simps)
  then have "map_of (disk ?c2) p \<noteq> None \<or> vacant p (disk ?c2)"
    using cloned_there_or_vacant [of "disk ?s1" p] by (simp del: cloned.simps)
  with f have "vacant p (disk ?s2)"
    by (intro clone_failed_vacant) (simp_all add: MAX_RETRIES_def del: cloned.simps)
  moreover have "disk (snd (cloneWithRetry p s)) = checkout p tree @ disk ?s2"
    using assms(3) by (simp add: run)
  ultimately show "\<exists>rest. disk (snd (cloneWithRetry p s)) = checkout p tree @ rest \<and> vacant p rest"
    by blast
qed

subsection \<open>Initialize\<close>

lemma initializeRepository_first_time:
  assumes "createTempDir (cleanup_previous s) = (Inr p, s2)"
    and "es_git s (calls s) = Succeeds tree"
  shows "initializeRepository s =
    (Inr p, (console_error ''FEP repository cloned successfully.''
               (snd (cloneRepository FEP_REPO_URL p (announced (Suc 0) s2))))
            \<lparr>currentRepo := Some (Repository (calls s) p), currentRepoPath := Some p\<rparr>)"
proof -
  note tmp = createTempDir_Inr [OF assms(1)]
  have "es_git s2 (calls s2) = Succeeds tree" using assms(2) by (simp add: tmp)
  from loop_Succeeds [OF _ this, of "Suc 0" None p]
  show ?thesis
    by (simp add: initializeRepository_def assms(1) cloneWithRetry_def MAX_RETRIES_def tmp)
qed

lemma initializeRepository_Inr_parts:
  assumes "initializeRepository s = (Inr p, s')"
  obtains s2 repo s3 where "createTempDir (cleanup_previous s) = (Inr p, s2)"
    and "cloneWithRetry p s2 = (Inr repo, s3)"
    and "s' = s3\<lparr>currentRepo := Some repo, currentRepoPath := Some p\<rparr>"
proof -
  obtain r s2 where t: "createTempDir (cleanup_previous s) = (r, s2)"
    by (cases "createTempDir (cleanup_previous s)")
  with assms obtain q where q: "r = Inr q"
    by (cases r) (simp_all add: initializeRepository_def)
  obtain c s3 where c: "cloneWithRetry q s2 = (c, s3)" by (cases "cloneWithRetry q s2")
  with assms t q obtain repo where repo: "c = Inr repo"
    by (cases c) (simp_all add: initializeRepository_def)
  from assms t q c repo have "p = q" "s' = s3\<lparr>currentRepo := Some repo, currentRepoPath := Some p\<rparr>"
    by (auto simp add: initializeRepository_def)
  with t q c repo that show thesis by simp
qed

lemma initializeRepository_Inr:
  assumes "initializeRepository s = (Inr p, s')"
  shows "currentRepoPath s' = Some p" "p \<noteq> []" "\<exists>repo. currentRepo s' = Some repo"
    "\<exists>tree rest. disk s' = checkout p tree @ rest"
    "faults s' = faults s" "tmpdir s' = tmpdir s" "es_git s' = es_git s"
    "\<exists>u skipped. rng s = skipped @ u # rng s' \<and> p = temp_path s ''fep-mcp-'' u"
proof -
  from assms obtain s2 repo s3 where t: "createTempDir (cleanup_previous s) = (Inr p, s2)"
    and c: "cloneWithRetry p s2 = (Inr repo, s3)"
    and eq: "s' = s3\<lparr>currentRepo := Some repo, currentRepoPath := Some p\<rparr>"
    by (rule initializeRepository_Inr_parts)
  note tmp = createTempDir_Inr [OF t]
  have s3: "s3 = snd (cloneWithRetry_loop 1 None p s2)"
    using c by (simp add: cloneWithRetry_def)
  note frame = cloneWithRetry_loop_frame [of 1 None p s2, folded s3]
  show "currentRepoPath s' = Some p" "\<exists>repo. currentRepo s' = Some repo"
    by (simp_all add: eq)
  from tmp(10) show "p \<noteq> []" by auto
  have "fst (cloneWithRetry_loop 1 None p s2) = Inr repo"
    using c by (simp add: cloneWithRetry_def)
  from cloneWithRetry_loop_Inr [OF this] show "\<exists>tree rest. disk s' = checkout p tree @ rest"
    by (simp add: eq s3)
  show "faults s' = faults s" "tmpdir s' = tmpdir s" "es_git s' = es_git s"
    by (simp_all add: eq frame tmp)
  from tmp(10) show "\<exists>u skipped. rng s = skipped @ u # rng s' \<and> p = temp_path s ''fep-mcp-'' u"
    by (simp add: eq frame temp_path_def)
qed

lemma initializeRepository_Inl:
  assumes "fst (initializeRepository s) = Inl e"
  shows "currentRepo (snd (initializeRepository s)) = currentRepo (cleanup_previous s) \<and>
         currentRepoPath (snd (initializeRepository s)) = currentRepoPath (cleanup_previous s)"
proof -
  obtain r s2 where t: "createTempDir (cleanup_previous s) = (r, s2)"
    by (cases "createTempDir (cleanup_previous s)")
  show ?thesis
  proof (cases r)
    case (Inl x)
    with t createTempDir_Inl(1,2) [of "cleanup_previous s" x s2]
    show ?thesis by (simp add: initializeRepository_def)
  next
    case (Inr p)
    note tmp = createTempDir_Inr [OF t [unfolded Inr]]
    obtain c s3 where c: "cloneWithRetry p s2 = (c, s3)" by (cases "cloneWithRetry p s2")
    with assms t Inr obtain x where x: "c = Inl x"
      by (cases c) (simp_all add: initializeRepository_def)
    have s3: "s3 = snd (cloneWithRetry_loop 1 None p s2)"
      using c by (simp add: cloneWithRetry_def)
    note frame = cloneWithRetry_loop_frame [of 1 None p s2, folded s3]
    from t Inr c x frame tmp show ?thesis by (simp add: initializeRepository_def)
  qed
qed

lemma initializeRepository_trace:
  "\<exists>evs. trace (snd (initializeRepository s)) = trace s @ evs \<and> length (filter is_clone evs) \<le> 3"
proof -
  obtain e0 where e0: "trace (cleanup_previous s) = trace s @ e0" "filter is_clone e0 = []"
    using cleanup_previous_trace by blast
  obtain e1 where e1: "trace (snd (createTempDir (cleanup_previous s))) = trace (cleanup_previous s) @ e1"
    "filter is_clone e1 = []"
    using createTempDir_trace by blast
  show ?thesis
  proof (cases "createTempDir (cleanup_previous s)")
    case (Pair r s2)
    show ?thesis
    proof (cases r)
      case (Inl e)
      with Pair e0 e1 have "trace (snd (initializeRepository s)) = trace s @ (e0 @ e1)"
        by (simp add: initializeRepository_def)
      with e0 e1 show ?thesis by (intro exI [of _ "e0 @ e1"]) simp
    next
      case (Inr p)
      obtain e2 where e2: "trace (snd (cloneWithRetry p s2)) = trace s2 @ e2"
        "length (filter is_clone e2) \<le> Suc MAX_RETRIES - 1"
        unfolding cloneWithRetry_def using cloneWithRetry_loop_trace by blast
      have "trace (snd (initializeRepository s)) = trace s @ (e0 @ e1 @ e2)"
        using Pair Inr e0 e1 e2
        by (cases "cloneWithRetry p s2") (auto simp add: initializeRepository_def split: sum.splits)
      with e0 e1 e2 show ?thesis
        by (intro exI [of _ "e0 @ e1 @ e2"]) (simp add: MAX_RETRIES_def)
    qed
  qed
qed

lemma initializeRepository_Inr_disk:
  assumes "initializeRepository s = (Inr p, s')" and "\<not> inside p q"
  shows "map_of (disk s') q = map_of (disk (cleanup_previous s)) q"
proof -
  from assms(1) obtain s2 repo s3 where t: "createTempDir (cleanup_previous s) = (Inr p, s2)"
    and c: "cloneWithRetry p s2 = (Inr repo, s3)"
    and eq: "s' = s3\<lparr>currentRepo := Some repo, currentRepoPath := Some p\<rparr>"
    by (rule initializeRepository_Inr_parts)
  have s3: "s3 = snd (cloneWithRetry_loop 1 None p s2)"
    using c by (simp add: cloneWithRetry_def)
  have "map_of (disk s') q = map_of (disk s2) q"
    using cloneWithRetry_loop_outside [OF assms(2), of 1 None s2] by (simp add: eq s3)
  also have "\<dots> = map_of (disk (cleanup_previous s)) q"
    using assms(2) by (auto simp add: createTempDir_Inr(8) [OF t] inside_def)
  finally show ?thesis .
qed

lemma initializeRepository_Inr_trace:
  assumes "initializeRepository s = (Inr p, s')"
  shows "\<exists>evs. trace s' = trace (cleanup_previous s) @ MakeTempDir p # evs"
proof -
  from assms(1) obtain s2 repo s3 where t: "createTempDir (cleanup_previous s) = (Inr p, s2)"
    and c: "cloneWithRetry p s2 = (Inr repo, s3)"
    and eq: "s' = s3\<lparr>currentRepo := Some repo, currentRepoPath := Some p\<rparr>"
    by (rule initializeRepository_Inr_parts)
  have s3: "s3 = snd (cloneWithRetry_loop 1 None p s2)"
    using c by (simp add: cloneWithRetry_def)
  from cloneWithRetry_loop_trace [of 1 None p s2] obtain evs where "trace s3 = trace s2 @ evs"
    unfolding s3 by blast
  then have "trace s' = trace (cleanup_previous s) @ MakeTempDir p # evs"
    by (simp add: eq createTempDir_Inr(7) [OF t])
  then show ?thesis by blast
qed

subsection \<open>Refresh and the reads\<close>

lemmas refresh_defs =
  refreshRepository_def refresh_try_def getRemote_def fetch_def openRepository_def Let_def

lemma refresh_try_frame:
  "currentRepoPath (snd (refresh_try repo s)) = currentRepoPath s"
  "faults (snd (refresh_try repo s)) = faults s"
  "tmpdir (snd (refresh_try repo s)) = tmpdir s"
  "rng (snd (refresh_try repo s)) = rng s"
  "es_git (snd (refresh_try repo s)) = es_git s"
  by (simp_all add: refresh_try_def getRemote_def fetch_def openRepository_def Let_def
      split: response.split)

lemma refresh_try_Inl:
  assumes "fst (refresh_try repo s) = Inl x"
  shows "currentRepo (snd (refresh_try repo s)) = currentRepo s"
    and "\<exists>i t. i < 3 \<and> es_git s (calls s + i) = Fails x t \<and>
               (\<forall>j<i. \<exists>t'. es_git s (calls s + j) = Succeeds t')"
    and "disk (snd (refresh_try repo s)) = disk s \<or>
         (\<exists>files. (\<forall>f\<in>set files. is_File f) \<and>
            disk (snd (refresh_try repo s)) = plant (workdir repo @ ''/.git'') files (disk s))"
    and "\<exists>evs. trace (snd (refresh_try repo s)) = trace s @ evs \<and>
           set evs \<subseteq> {GetRemote ''origin'', Fetch, OpenRepository (template (currentRepoPath s))}"
proof -
  show "currentRepo (snd (refresh_try repo s)) = currentRepo s"
    using assms
    by (simp add: refresh_try_def getRemote_def fetch_def openRepository_def Let_def
        split: response.splits)
  show "\<exists>i t. i < 3 \<and> es_git s (calls s + i) = Fails x t \<and>
               (\<forall>j<i. \<exists>t'. es_git s (calls s + j) = Succeeds t')"
  proof (cases "es_git s (calls s)")
    case (Fails y t)
    with assms have "x = y"
      by (simp add: refresh_try_def getRemote_def Let_def)
    with Fails show ?thesis by (intro exI [of _ 0] exI [of _ t]) simp
  next
    case s0: (Succeeds t0)
    show ?thesis
    proof (cases "es_git s (Suc (calls s))")
      case (Fails y t)
      with assms s0 have "x = y"
        by (simp add: refresh_try_def getRemote_def fetch_def Let_def)
      with Fails s0 show ?thesis by (intro exI [of _ 1] exI [of _ t]) simp
    next
      case s1: (Succeeds t1)
      show ?thesis
      proof (cases "es_git s (Suc (Suc (calls s)))")
        case (Fails y t)
        with assms s0 s1 have "x = y"
          by (simp add: refresh_try_def getRemote_def fetch_def openRepository_def Let_def)
        with Fails s0 s1 show ?thesis
          by (intro exI [of _ 2] exI [of _ t]) (simp add: less_Suc_eq numeral_2_eq_2)
      next
        case (Succeeds t2)
        with assms s0 s1 show ?thesis
          by (simp add: refresh_try_def getRemote_def fetch_def openRepository_def Let_def)
      qed
    qed
  qed
  show "disk (snd (refresh_try repo s)) = disk s \<or>
         (\<exists>files. (\<forall>f\<in>set files. is_File f) \<and>
            disk (snd (refresh_try repo s)) = plant (workdir repo @ ''/.git'') files (disk s))"
  proof (cases "es_git s (calls s)")
    case (Fails y t)
    then show ?thesis by (simp add: refresh_try_def getRemote_def Let_def)
  next
    case (Succeeds t0)
    have "\<forall>f\<in>set (filter is_File (leaves (es_git s (Suc (calls s))))). is_File f" by simp
    moreover have "disk (snd (refresh_try repo s)) =
        plant (workdir repo @ ''/.git'') (filter is_File (leaves (es_git s (Suc (calls s))))) (disk s)"
      using Succeeds
      by (simp add: refresh_try_def getRemote_def fetch_def openRepository_def Let_def
          split: response.split)
    ultimately show ?thesis by blast
  qed
  show "\<exists>evs. trace (snd (refresh_try repo s)) = trace s @ evs \<and>
           set evs \<subseteq> {GetRemote ''origin'', Fetch, OpenRepository (template (currentRepoPath s))}"
    by (simp add: refresh_try_def getRemote_def fetch_def openRepository_def Let_def
        split: response.split)
qed

lemma readFile_Inr_iff:
  "fst (readFile rel s) = Inr text \<longleftrightarrow>
     truthy (currentRepoPath s) \<and>
     faults s (ReadTextFile (template (currentRepoPath s) @ ''/'' @ rel)) = None \<and>
     map_of (disk s) (template (currentRepoPath s) @ ''/'' @ rel) = Some (File text)"
  by (auto simp add: readFile_def Deno_readTextFile_def Let_def split: option.splits node.splits)

lemma reads_keep_handle:
  "currentRepo (snd (readFile rel s)) = currentRepo s"
  "currentRepoPath (snd (readFile rel s)) = currentRepoPath s"
  "currentRepo (snd (fileExists rel s)) = currentRepo s"
  "currentRepoPath (snd (fileExists rel s)) = currentRepoPath s"
  "currentRepo (snd (listDirectory rel s)) = currentRepo s"
  "currentRepoPath (snd (listDirectory rel s)) = currentRepoPath s"
  by (simp_all add: readFile_def fileExists_def listDirectory_def Deno_readTextFile_def
      Deno_stat_def Deno_readDir_def Let_def split: option.split node.split)

lemma not_truthy_after_cleanup: "\<not> truthy (currentRepoPath (snd (cleanupRepository s)))"
  by (simp add: cleanupRepository_def)

subsection \<open>The invariant of the handle\<close>

lemma cleanup_previous_invariant: "handle_invariant s \<Longrightarrow> handle_invariant (cleanup_previous s)"
  by (simp add: handle_invariant_def cleanup_previous_def)

lemma initializeRepository_invariant:
  assumes "handle_invariant s"
  shows "handle_invariant (snd (initializeRepository s))"
proof (cases "initializeRepository s")
  case (Pair r s')
  show ?thesis
  proof (cases r)
    case (Inl e)
    with Pair have "fst (initializeRepository s) = Inl e" by simp
    from initializeRepository_Inl [OF this] cleanup_previous_invariant [OF assms]
    show ?thesis by (simp add: handle_invariant_def)
  next
    case (Inr p)
    from initializeRepository_Inr(1,3) [OF Pair [unfolded Inr]] Pair
    show ?thesis by (auto simp add: handle_invariant_def)
  qed
qed

lemma refreshRepository_invariant:
  assumes "handle_invariant s"
  shows "handle_invariant (snd (refreshRepository s))"
proof (cases "currentRepo s")
  case None
  with assms show ?thesis by (simp add: refreshRepository_def)
next
  case (Some repo)
  have "currentRepo (snd (refresh_try repo s)) \<noteq> None"
    using Some
    by (simp add: refresh_try_def getRemote_def fetch_def openRepository_def Let_def
        split: response.split)
  moreover have "currentRepoPath (snd (refreshRepository s)) = currentRepoPath s"
    "currentRepo (snd (refreshRepository s)) =
       (if truthy (currentRepoPath s) then currentRepo (snd (refresh_try repo s)) else currentRepo s)"
    using Some refresh_try_frame(1) [of repo s]
    by (cases "refresh_try repo s"; simp add: refreshRepository_def split: sum.split)+
  ultimately show ?thesis
    using assms Some by (auto simp add: handle_invariant_def)
qed

lemma perform_invariant: "handle_invariant s \<Longrightarrow> handle_invariant (perform op s)"
proof (cases op)
  case Initialize
  assume "handle_invariant s"
  with Initialize show ?thesis by (simp add: initializeRepository_invariant)
next
  case Refresh
  assume "handle_invariant s"
  with Refresh show ?thesis by (simp add: refreshRepository_invariant)
next
  case Teardown
  assume "handle_invariant s"
  with Teardown show ?thesis by (simp add: handle_invariant_def cleanupRepository_def)
qed (simp_all add: handle_invariant_def reads_keep_handle)

lemma perform_all_invariant:
  "handle_invariant s \<Longrightarrow> handle_invariant (foldl (\<lambda>s op. perform op s) s ops)"
  by (induction ops arbitrary: s) (simp_all add: perform_invariant)

subsection \<open>The example runs\<close>

lemma online_initialize:
  "initializeRepository online = (Inr ''/tmp/fep-mcp-c0ffee01'', mirrored)"
proof -
  obtain s2 where tmp: "createTempDir (cleanup_previous online) = (Inr ''/tmp/fep-mcp-c0ffee01'', s2)"
    by (simp add: online_def cleanup_previous_def createTempDir_def
        Deno_makeTempDir_def exists_on_disk_def temp_path_def Let_def)
  have "es_git online (calls online) = Succeeds papers" by (simp add: online_def)
  from initializeRepository_first_time [OF tmp this]
  have "fst (initializeRepository online) = Inr ''/tmp/fep-mcp-c0ffee01''" by simp
  then show ?thesis by (simp add: mirrored_def prod_eq_iff)
qed

lemma mirrored_fields:
  "currentRepo mirrored = Some (Repository 0 ''/tmp/fep-mcp-c0ffee01'')"
  "currentRepoPath mirrored = Some ''/tmp/fep-mcp-c0ffee01''"
  "disk mirrored = checkout ''/tmp/fep-mcp-c0ffee01'' papers @ [(''/tmp/fep-mcp-c0ffee01'', Dir), (''/tmp'', Dir)]"
  "faults mirrored = (\<lambda>e. None)"
  "calls mirrored = 1"
  "rng mirrored = [[Hc, H0, Hf, Hf, He, He, H0, H2]]"
  "tmpdir mirrored = ''/tmp''"
  "trace mirrored = [MakeTempDir ''/tmp/fep-mcp-c0ffee01'',
                     CloneRepository FEP_REPO_URL ''/tmp/fep-mcp-c0ffee01'']"
proof -
  let ?p = "''/tmp/fep-mcp-c0ffee01''"
  obtain s2 where tmp: "createTempDir (cleanup_previous online) = (Inr ?p, s2)"
    by (simp add: online_def cleanup_previous_def createTempDir_def
        Deno_makeTempDir_def exists_on_disk_def temp_path_def Let_def)
  have s2: "s2 = snd (createTempDir (cleanup_previous online))" by (simp add: tmp)
  have f: "disk s2 = [(?p, Dir), (''/tmp'', Dir)]" "faults s2 = (\<lambda>e. None)" "calls s2 = 0"
    "rng s2 = [[Hc, H0, Hf, Hf, He, He, H0, H2]]" "tmpdir s2 = ''/tmp''" "trace s2 = [MakeTempDir ?p]"
    "es_git s2 = (\<lambda>n. Succeeds papers)"
    unfolding s2
    by (simp_all add: online_def cleanup_previous_def createTempDir_def
        Deno_makeTempDir_def exists_on_disk_def temp_path_def Let_def record_call_def)
  have "es_git online (calls online) = Succeeds papers" by (simp add: online_def)
  note run = initializeRepository_first_time [OF tmp this]
  show "currentRepo mirrored = Some (Repository 0 ?p)"
    "currentRepoPath mirrored = Some ?p"
    "disk mirrored = checkout ?p papers @ [(?p, Dir), (''/tmp'', Dir)]"
    "faults mirrored = (\<lambda>e. None)"
    "calls mirrored = 1"
    "rng mirrored = [[Hc, H0, Hf, Hf, He, He, H0, H2]]"
    "tmpdir mirrored = ''/tmp''"
    "trace mirrored = [MakeTempDir ?p, CloneRepository FEP_REPO_URL ?p]"
    by (simp_all add: mirrored_def run f) (simp_all add: online_def)
qed

lemma mirrored_es_git: "es_git mirrored = (\<lambda>n. Succeeds papers)"
  using initializeRepository_Inr(7) [OF online_initialize] by (simp add: online_def)

section \<open>The claims\<close>

subsection \<open>C1: exhausted retries\<close>

text \<open>
  Claim C1, as the code has it. When all three clone attempts fail, \<open>initializeRepository\<close>
  throws an error whose message holds the attempt count 3 and the message of the last failure,
  and both module variables are cleared. The removal of the destination is called after the
  first and after the second failed attempt only: the third clone is the last call made, and
  the disk stays as that clone left it, with whatever it left at the destination.
\<close>

theorem initialize_exhausted:
  assumes "UNINITIALIZED s \<or> READY s"
    and "createTempDir (cleanup_previous s) = (Inr p, s2)"
    and "es_git s (calls s) = Fails x1 t1"
    and "es_git s (Suc (calls s)) = Fails x2 t2"
    and "es_git s (Suc (Suc (calls s))) = Fails x3 t3"
  shows "fst (initializeRepository s) =
           Inl (Error (''Failed to clone FEP repository after 3 attempts: '' @ message (as_Error x3))) \<and>
         UNINITIALIZED (snd (initializeRepository s)) \<and>
         calls_since s2 (snd (initializeRepository s)) =
           [CloneRepository FEP_REPO_URL p, SetTimeout 1000, Remove p,
            CloneRepository FEP_REPO_URL p, SetTimeout 2000, Remove p,
            CloneRepository FEP_REPO_URL p] \<and>
         (\<exists>rest. disk (snd (initializeRepository s)) = cloned (Fails x3 t3) p rest)"
proof -
  note tmp = createTempDir_Inr [OF assms(2)]
  have r: "es_git s2 (calls s2) = Fails x1 t1" "es_git s2 (Suc (calls s2)) = Fails x2 t2"
    "es_git s2 (Suc (Suc (calls s2))) = Fails x3 t3"
    using assms(3-5) by (simp_all add: tmp)
  note three = cloneWithRetry_three_failures [OF r, of p]
  have "UNINITIALIZED s2"
    using cleanup_previous_handle [OF assms(1)] by (simp add: UNINITIALIZED_def tmp)
  then have u: "UNINITIALIZED (snd (cloneWithRetry p s2))"
    by (simp add: UNINITIALIZED_def cloneWithRetry_def cloneWithRetry_loop_frame)
  obtain e s3 where c: "cloneWithRetry p s2 = (Inl e, s3)"
    using three(1) by (cases "cloneWithRetry p s2") auto
  have i: "initializeRepository s = (Inl e, s3)"
    by (simp add: initializeRepository_def assms(2) c)
  show ?thesis
    using three u by (simp add: i c calls_since_def del: cloned.simps)
qed

text \<open>The run of \<open>offline\<close>, where every clone fails.\<close>

theorem initialize_exhausted_witness:
  "UNINITIALIZED offline \<and>
   fst (createTempDir (cleanup_previous offline)) = Inr ''/tmp/fep-mcp-c0ffee01'' \<and>
   fst (initializeRepository offline) =
     Inl (Error ''Failed to clone FEP repository after 3 attempts: early EOF'') \<and>
   UNINITIALIZED (snd (initializeRepository offline))"
  using initialize_exhausted [of offline "''/tmp/fep-mcp-c0ffee01''"
      "snd (createTempDir (cleanup_previous offline))"
      "Error ''connection reset''" "Some [(''.git'', Dir), (''.git/tmp_pack_1'', File ''PACK'')]"
      "Error ''early EOF''" "Some [(''.git'', Dir), (''.git/tmp_pack_2'', File ''PACK'')]"
      "Error ''early EOF''" "Some [(''.git'', Dir), (''.git/tmp_pack_2'', File ''PACK'')]"]
  by (simp add: offline_def online_def UNINITIALIZED_def cleanup_previous_def createTempDir_def
      Deno_makeTempDir_def exists_on_disk_def temp_path_def record_call_def Let_def as_Error_def
      prod_eq_iff)

text \<open>
  Against claim C1 as stated: after the third failure nothing is removed, and the temporary
  directory stays on disk together with the partial content of the last attempt.
\<close>

theorem initialize_exhausted_leaves_directory:
  "fst (initializeRepository offline) =
     Inl (Error ''Failed to clone FEP repository after 3 attempts: early EOF'') \<and>
   map_of (disk (snd (initializeRepository offline))) ''/tmp/fep-mcp-c0ffee01'' = Some Dir \<and>
   map_of (disk (snd (initializeRepository offline))) ''/tmp/fep-mcp-c0ffee01/.git/tmp_pack_2''
     = Some (File ''PACK'') \<and>
   last (trace (snd (initializeRepository offline)))
     = CloneRepository FEP_REPO_URL ''/tmp/fep-mcp-c0ffee01''"
proof -
  let ?p = "''/tmp/fep-mcp-c0ffee01''"
  let ?t = "[(''.git'', Dir), (''.git/tmp_pack_2'', File ''PACK'')]"
  obtain s2 where tmp: "createTempDir (cleanup_previous offline) = (Inr ?p, s2)"
    by (simp add: offline_def online_def cleanup_previous_def createTempDir_def
        Deno_makeTempDir_def exists_on_disk_def temp_path_def Let_def)
  have r: "es_git s2 (calls s2) = Fails (Error ''connection reset'') (Some [(''.git'', Dir), (''.git/tmp_pack_1'', File ''PACK'')])"
    "es_git s2 (Suc (calls s2)) = Fails (Error ''early EOF'') (Some ?t)"
    "es_git s2 (Suc (Suc (calls s2))) = Fails (Error ''early EOF'') (Some ?t)"
    by (simp_all add: createTempDir_Inr [OF tmp] offline_def online_def)
  note three = cloneWithRetry_three_failures [OF r, of ?p]
  obtain e s3 where c: "cloneWithRetry ?p s2 = (Inl e, s3)"
    using three(1) by (cases "cloneWithRetry ?p s2") auto
  have i: "initializeRepository offline = (Inl e, s3)"
    by (simp add: initializeRepository_def tmp c)
  from three(3) obtain rest where d: "disk s3 = checkout ?p ?t @ rest"
    by (auto simp add: c)
  show ?thesis
    using three(1,2) by (simp add: i c d as_Error_def checkout_def plant_def)
qed

subsection \<open>C2: the retry schedule\<close>

text \<open>
  Claim C2, as the code has it. An initialize makes at most three clone calls. After failed
  attempt \<open>a < 3\<close> the loop waits \<open>1000 * 2 ^ (a - 1)\<close> ms and then calls the recursive removal
  of the destination; after the third it does neither. When attempts 1 and 2 fail and attempt 3
  succeeds, initialize returns the path and the handle is READY, the calls are clone, wait
  1000, remove, clone, wait 2000, remove, clone, all on the same path, and the waits add up to
  3000 ms. When the removals are not refused, what lies in the destination afterwards is what
  the successful clone checked out, and nothing else.
\<close>

theorem clone_retry_schedule:
  "length (filter is_clone (calls_since s (snd (initializeRepository s)))) \<le> 3 \<and>
   calls_since s (clone_failed a e d s) =
     (if a < 3 then [SetTimeout (1000 * 2 ^ (a - 1)), Remove d] else []) \<and>
   (createTempDir (cleanup_previous s) = (Inr p, s2) \<and>
    es_git s (calls s) = Fails x1 t1 \<and>
    es_git s (Suc (calls s)) = Fails x2 t2 \<and>
    es_git s (Suc (Suc (calls s))) = Succeeds tree \<longrightarrow>
      fst (initializeRepository s) = Inr p \<and>
      READY (snd (initializeRepository s)) \<and>
      currentRepoPath (snd (initializeRepository s)) = Some p \<and>
      calls_since s2 (snd (initializeRepository s)) =
        [CloneRepository FEP_REPO_URL p, SetTimeout 1000, Remove p,
         CloneRepository FEP_REPO_URL p, SetTimeout 2000, Remove p,
         CloneRepository FEP_REPO_URL p] \<and>
      sum_list (map waited (calls_since s (snd (initializeRepository s)))) = 3000 \<and>
      (faults s (Remove p) = None \<longrightarrow>
         (\<forall>q. inside p q \<longrightarrow>
            map_of (disk (snd (initializeRepository s))) q = map_of (checkout p tree) q)))"
proof (intro conjI impI allI)
  show "length (filter is_clone (calls_since s (snd (initializeRepository s)))) \<le> 3"
    using initializeRepository_trace [of s] by auto
  show "calls_since s (clone_failed a e d s) =
     (if a < 3 then [SetTimeout (1000 * 2 ^ (a - 1)), Remove d] else [])"
    by (simp add: calls_since_def trace_clone_failed MAX_RETRIES_def BASE_DELAY_MS_def)
next
  assume h: "createTempDir (cleanup_previous s) = (Inr p, s2) \<and>
    es_git s (calls s) = Fails x1 t1 \<and>
    es_git s (Suc (calls s)) = Fails x2 t2 \<and>
    es_git s (Suc (Suc (calls s))) = Succeeds tree"
  then have t: "createTempDir (cleanup_previous s) = (Inr p, s2)" by simp
  note tmp = createTempDir_Inr [OF t]
  have r: "es_git s2 (calls s2) = Fails x1 t1" "es_git s2 (Suc (calls s2)) = Fails x2 t2"
    "es_git s2 (Suc (Suc (calls s2))) = Succeeds tree"
    using h by (simp_all add: tmp)
  note run = cloneWithRetry_third_time [OF r, of p]
  note facts = cloneWithRetry_third_time_facts [OF r, of p]
  let ?s3 = "snd (cloneWithRetry p s2)"
  let ?s' = "snd (initializeRepository s)"
  have i: "initializeRepository s =
      (Inr p, ?s3\<lparr>currentRepo := Some (Repository (Suc (Suc (calls s2))) p), currentRepoPath := Some p\<rparr>)"
    by (simp add: initializeRepository_def t run)
  show "fst (initializeRepository s) = Inr p" by (simp add: i)
  have "p \<noteq> []" using tmp(10) by auto
  then show "READY ?s'" by (simp add: i READY_def)
  show "currentRepoPath ?s' = Some p" by (simp add: i)
  have tr: "trace ?s' = trace s2 @
        [CloneRepository FEP_REPO_URL p, SetTimeout 1000, Remove p,
         CloneRepository FEP_REPO_URL p, SetTimeout 2000, Remove p,
         CloneRepository FEP_REPO_URL p]"
    using facts(1) by (simp add: i)
  then show "calls_since s2 ?s' =
        [CloneRepository FEP_REPO_URL p, SetTimeout 1000, Remove p,
         CloneRepository FEP_REPO_URL p, SetTimeout 2000, Remove p,
         CloneRepository FEP_REPO_URL p]"
    by simp
  obtain e0 where e0: "trace (cleanup_previous s) = trace s @ e0" "sum_list (map waited e0) = 0"
    using cleanup_previous_trace by blast
  have "trace ?s' = trace s @ (e0 @ MakeTempDir p #
        [CloneRepository FEP_REPO_URL p, SetTimeout 1000, Remove p,
         CloneRepository FEP_REPO_URL p, SetTimeout 2000, Remove p,
         CloneRepository FEP_REPO_URL p])"
    by (simp add: tr tmp(7) e0(1))
  from calls_since_append [OF this] e0(2)
  show "sum_list (map waited (calls_since s ?s')) = 3000" by simp
  fix q
  assume "faults s (Remove p) = None" "inside p q"
  then have "faults s2 (Remove p) = None" by (simp add: tmp)
  moreover have "map_of (disk s2) p \<noteq> None" by (simp add: tmp)
  ultimately obtain rest where "disk ?s3 = checkout p tree @ rest" "vacant p rest"
    using facts(2) by blast
  then have "disk ?s' = checkout p tree @ rest" "vacant p rest"
    by (simp_all add: i)
  with \<open>inside p q\<close> show "map_of (disk ?s') q = map_of (checkout p tree) q"
    by (simp only: map_of_over_vacant)
qed

text \<open>The run of \<open>flaky\<close>, where the third clone succeeds.\<close>

theorem clone_retry_schedule_witness:
  "fst (createTempDir (cleanup_previous flaky)) = Inr ''/tmp/fep-mcp-c0ffee01'' \<and>
   faults flaky (Remove ''/tmp/fep-mcp-c0ffee01'') = None \<and>
   fst (initializeRepository flaky) = Inr ''/tmp/fep-mcp-c0ffee01'' \<and>
   READY (snd (initializeRepository flaky)) \<and>
   sum_list (map waited (calls_since flaky (snd (initializeRepository flaky)))) = 3000 \<and>
   map_of (disk (snd (initializeRepository flaky))) ''/tmp/fep-mcp-c0ffee01/.git/tmp_pack_1'' = None \<and>
   map_of (disk (snd (initializeRepository flaky))) ''/tmp/fep-mcp-c0ffee01/index.json''
     = Some (File ''[]'')"
proof -
  let ?p = "''/tmp/fep-mcp-c0ffee01''"
  let ?t = "Some [(''.git'', Dir), (''.git/tmp_pack_1'', File ''PACK'')]"
  have t: "createTempDir (cleanup_previous flaky) = (Inr ?p, snd (createTempDir (cleanup_previous flaky)))"
    by (simp add: flaky_def online_def cleanup_previous_def createTempDir_def
        Deno_makeTempDir_def exists_on_disk_def temp_path_def Let_def)
  have r: "es_git flaky (calls flaky) = Fails (Error ''connection reset'') ?t"
    "es_git flaky (Suc (calls flaky)) = Fails (Error ''connection timed out'') None"
    "es_git flaky (Suc (Suc (calls flaky))) = Succeeds papers"
    "faults flaky (Remove ?p) = None"
    by (simp_all add: flaky_def online_def)
  from clone_retry_schedule [of flaky 1 "Error ''connection reset''" ?p ?p "snd (createTempDir (cleanup_previous flaky))"
      "Error ''connection reset''" ?t "Error ''connection timed out''" None papers] t r
  have c: "fst (initializeRepository flaky) = Inr ?p" "READY (snd (initializeRepository flaky))"
    "sum_list (map waited (calls_since flaky (snd (initializeRepository flaky)))) = 3000"
    "\<forall>q. inside ?p q \<longrightarrow>
       map_of (disk (snd (initializeRepository flaky))) q = map_of (checkout ?p papers) q"
    by simp_all
  from c(4) have
    "map_of (disk (snd (initializeRepository flaky))) ''/tmp/fep-mcp-c0ffee01/.git/tmp_pack_1''
       = map_of (checkout ?p papers) ''/tmp/fep-mcp-c0ffee01/.git/tmp_pack_1''"
    "map_of (disk (snd (initializeRepository flaky))) ''/tmp/fep-mcp-c0ffee01/index.json''
       = map_of (checkout ?p papers) ''/tmp/fep-mcp-c0ffee01/index.json''"
    by (simp_all add: inside_def)
  moreover have "fst (createTempDir (cleanup_previous flaky)) = Inr ?p"
    by (subst t) simp
  ultimately show ?thesis
    using r(4) c(1-3) by (simp add: checkout_def plant_def papers_def)
qed

text \<open>
  Against claim C2 as stated: a removal the system refuses is logged and ignored, so the
  partial content of the first failed attempt is still there for every retry, and at the end.
\<close>

theorem refused_removal_keeps_partial_clone:
  "calls_since stuck (snd (initializeRepository stuck)) =
     [MakeTempDir ''/tmp/fep-mcp-c0ffee01'',
      CloneRepository FEP_REPO_URL ''/tmp/fep-mcp-c0ffee01'',
      SetTimeout 1000, Remove ''/tmp/fep-mcp-c0ffee01'',
      CloneRepository FEP_REPO_URL ''/tmp/fep-mcp-c0ffee01'',
      SetTimeout 2000, Remove ''/tmp/fep-mcp-c0ffee01'',
      CloneRepository FEP_REPO_URL ''/tmp/fep-mcp-c0ffee01''] \<and>
   map_of (disk (snd (initializeRepository stuck))) ''/tmp/fep-mcp-c0ffee01/.git/tmp_pack_1''
     = Some (File ''PACK'')"
proof -
  let ?p = "''/tmp/fep-mcp-c0ffee01''"
  let ?t1 = "[(''.git'', Dir), (''.git/tmp_pack_1'', File ''PACK'')]"
  let ?t2 = "[(''.git'', Dir), (''.git/tmp_pack_2'', File ''PACK'')]"
  obtain s2 where tmp: "createTempDir (cleanup_previous stuck) = (Inr ?p, s2)"
    by (simp add: stuck_def offline_def online_def cleanup_previous_def createTempDir_def
        Deno_makeTempDir_def exists_on_disk_def temp_path_def refused_def Let_def)
  note t = createTempDir_Inr [OF tmp]
  have base: "trace (cleanup_previous stuck) = []"
    "faults s2 (Remove ?p) = Some (Deno_error PermissionDenied ''Permission denied (os error 13)'')"
    by (simp_all add: t stuck_def offline_def online_def cleanup_previous_def refused_def)
  have r: "es_git s2 (calls s2) = Fails (Error ''connection reset'') (Some ?t1)"
    "es_git s2 (Suc (calls s2)) = Fails (Error ''early EOF'') (Some ?t2)"
    "es_git s2 (Suc (Suc (calls s2))) = Fails (Error ''early EOF'') (Some ?t2)"
    by (simp_all add: t stuck_def offline_def online_def)
  note three = cloneWithRetry_three_failures [OF r, of ?p]
  note st = cloneWithRetry_three_failures_run [OF r, of ?p]
  obtain e s3 where c: "cloneWithRetry ?p s2 = (Inl e, s3)"
    using three(1) by (cases "cloneWithRetry ?p s2") auto
  have i: "initializeRepository stuck = (Inl e, s3)"
    by (simp add: initializeRepository_def tmp c)
  have s3: "s3 = snd (cloneWithRetry ?p s2)" by (simp add: c)
  have d: "disk s3 = checkout ?p ?t2 @ checkout ?p ?t2 @ checkout ?p ?t1 @ disk s2"
    unfolding s3 by (simp add: st disk_clone_failed base(2) r)
  have tr: "trace s3 = [] @ MakeTempDir ?p #
     [CloneRepository FEP_REPO_URL ?p, SetTimeout 1000, Remove ?p,
      CloneRepository FEP_REPO_URL ?p, SetTimeout 2000, Remove ?p,
      CloneRepository FEP_REPO_URL ?p]"
    using three(2) by (simp add: c t(7) base(1))
  have "trace stuck = []" by (simp add: stuck_def offline_def online_def)
  then have "calls_since stuck s3 = trace s3" by (simp add: calls_since_def)
  then show ?thesis
    by (simp add: i tr d checkout_def plant_def)
qed

subsection \<open>C3: a failed refresh\<close>

text \<open>
  Claim C3. When \<open>refreshRepository\<close> fails on a READY handle, the error is
  \<open>Failed to refresh repository:\<close> followed by the message of what the first failing call of
  es-git threw; \<open>currentRepo\<close> and \<open>currentRepoPath\<close> are what they were, so the handle is still
  READY; nothing was removed; and every path that \<open>readFile\<close> could read before can still be
  read.
\<close>

theorem refresh_failure_keeps_mirror:
  assumes "READY s" and "fst (refreshRepository s) = Inl e"
  shows "(\<exists>x. e = Error (''Failed to refresh repository: ''
                         @ (if instanceof_Error x then message x else String x)) \<and>
              (\<exists>i t. i < 3 \<and> es_git s (calls s + i) = Fails x t \<and>
                 (\<forall>j<i. \<exists>t'. es_git s (calls s + j) = Succeeds t'))) \<and>
         currentRepo (snd (refreshRepository s)) = currentRepo s \<and>
         currentRepoPath (snd (refreshRepository s)) = currentRepoPath s \<and>
         READY (snd (refreshRepository s)) \<and>
         (\<forall>p. Remove p \<notin> set (calls_since s (snd (refreshRepository s)))) \<and>
         (\<forall>rel text. fst (readFile rel s) = Inr text \<longrightarrow>
            (\<exists>text'. fst (readFile rel (snd (refreshRepository s))) = Inr text'))"
proof -
  from assms(1) obtain repo where repo: "currentRepo s = Some repo" "truthy (currentRepoPath s)"
    by (auto simp add: READY_def)
  obtain r s1 where t: "refresh_try repo s = (r, s1)" by (cases "refresh_try repo s")
  from assms(2) repo t obtain x where x: "r = Inl x"
    by (cases r) (simp_all add: refreshRepository_def)
  have res: "refreshRepository s =
      (Inl (Error (''Failed to refresh repository: ''
                     @ (if instanceof_Error x then message x else String x))), s1)"
    using repo t x by (simp add: refreshRepository_def)
  have fx: "fst (refresh_try repo s) = Inl x" and s1: "s1 = snd (refresh_try repo s)"
    using t x by simp_all
  note inl = refresh_try_Inl [OF fx, folded s1]
  note frame = refresh_try_frame [of repo s, folded s1]
  have e: "e = Error (''Failed to refresh repository: ''
                        @ (if instanceof_Error x then message x else String x))"
    using assms(2) by (simp add: res)
  have ready: "READY s1" using repo inl(1) frame(1) by (simp add: READY_def)
  from inl(4) obtain evs where evs: "trace s1 = trace s @ evs"
    "set evs \<subseteq> {GetRemote ''origin'', Fetch, OpenRepository (template (currentRepoPath s))}"
    by blast
  have norm: "\<forall>p. Remove p \<notin> set (calls_since s s1)"
    using evs by (auto simp add: calls_since_def)
  have read: "\<exists>text'. fst (readFile rel s1) = Inr text'" if "fst (readFile rel s) = Inr body" for rel body
  proof -
    let ?full = "template (currentRepoPath s) @ ''/'' @ rel"
    from that have a: "faults s (ReadTextFile ?full) = None" "map_of (disk s) ?full = Some (File body)"
      by (simp_all add: readFile_Inr_iff)
    from inl(3) a(2) obtain text' where "map_of (disk s1) ?full = Some (File text')"
      using map_of_plant_files by metis
    with a(1) repo(2) frame show ?thesis by (simp add: readFile_Inr_iff)
  qed
  show ?thesis
    using e inl(1,2) frame(1) ready norm read by (simp add: res) blast
qed

text \<open>The refresh of \<open>unreachable\<close>, whose fetch fails.\<close>

theorem refresh_failure_keeps_mirror_witness:
  "READY unreachable \<and>
   fst (refreshRepository unreachable) =
     Inl (Error ''Failed to refresh repository: failed to resolve address for codeberg.org'') \<and>
   READY (snd (refreshRepository unreachable)) \<and>
   currentRepoPath (snd (refreshRepository unreachable)) = Some ''/tmp/fep-mcp-c0ffee01'' \<and>
   fst (readFile ''index.json'' unreachable) = Inr ''[]'' \<and>
   fst (readFile ''index.json'' (snd (refreshRepository unreachable))) = Inr ''[]''"
proof -
  have a: "READY unreachable"
    by (simp add: READY_def unreachable_def mirrored_fields)
  have b: "fst (refreshRepository unreachable) =
     Inl (Error ''Failed to refresh repository: failed to resolve address for codeberg.org'')"
    by (simp add: refresh_defs unreachable_def mirrored_fields)
  have c: "fst (readFile ''index.json'' unreachable) = Inr ''[]''"
    by (simp add: readFile_Inr_iff unreachable_def mirrored_fields checkout_def plant_def papers_def)
  have d: "disk (snd (refreshRepository unreachable)) = disk mirrored"
    by (simp add: refresh_defs unreachable_def mirrored_fields plant_def)
  from refresh_failure_keeps_mirror [OF a b]
  have e: "READY (snd (refreshRepository unreachable))"
    "currentRepoPath (snd (refreshRepository unreachable)) = currentRepoPath unreachable"
    by simp_all
  have f: "faults (snd (refreshRepository unreachable)) = (\<lambda>e. None)"
    by (simp add: refresh_defs unreachable_def mirrored_fields)
  have "fst (readFile ''index.json'' (snd (refreshRepository unreachable))) = Inr ''[]''"
    by (simp add: readFile_Inr_iff e d f)
       (simp add: unreachable_def mirrored_fields checkout_def plant_def papers_def)
  with a b c e show ?thesis
    by (simp add: unreachable_def mirrored_fields)
qed

subsection \<open>C4: reading a file\<close>

text \<open>
  Claim C4. On an initialized handle, as a successful \<open>initializeRepository\<close> leaves it,
  \<open>readFile\<close> returns the text of the file the disk has at the path below the working copy;
  where the disk has nothing at that path it throws \<open>File not found:\<close> with the relative path;
  and any other error of \<open>Deno.readTextFile\<close> is thrown on as it is.
\<close>

theorem readFile_contract:
  "(initializeRepository s0 = (Inr root, s) \<longrightarrow> currentRepoPath s = Some root \<and> root \<noteq> []) \<and>
   (currentRepoPath s = Some root \<and> root \<noteq> [] \<longrightarrow>
      (faults s (ReadTextFile (root @ ''/'' @ rel)) = None \<and>
       map_of (disk s) (root @ ''/'' @ rel) = Some (File body) \<longrightarrow>
         fst (readFile rel s) = Inr body) \<and>
      (faults s (ReadTextFile (root @ ''/'' @ rel)) = None \<and>
       map_of (disk s) (root @ ''/'' @ rel) = None \<longrightarrow>
         fst (readFile rel s) = Inl (Error (''File not found: '' @ rel))) \<and>
      (fst (Deno_readTextFile (root @ ''/'' @ rel) s) = Inl error \<and> instanceof_NotFound error \<longrightarrow>
         fst (readFile rel s) = Inl (Error (''File not found: '' @ rel))) \<and>
      (fst (Deno_readTextFile (root @ ''/'' @ rel) s) = Inl error \<and> \<not> instanceof_NotFound error \<longrightarrow>
         fst (readFile rel s) = Inl error))"
proof (intro conjI impI)
  assume "initializeRepository s0 = (Inr root, s)"
  from initializeRepository_Inr(1,2) [OF this]
  show "currentRepoPath s = Some root" "root \<noteq> []" .
next
  assume "currentRepoPath s = Some root \<and> root \<noteq> []"
    "faults s (ReadTextFile (root @ ''/'' @ rel)) = None \<and>
       map_of (disk s) (root @ ''/'' @ rel) = Some (File body)"
  then show "fst (readFile rel s) = Inr body" by (simp add: readFile_Inr_iff)
next
  assume "currentRepoPath s = Some root \<and> root \<noteq> []"
    "faults s (ReadTextFile (root @ ''/'' @ rel)) = None \<and>
       map_of (disk s) (root @ ''/'' @ rel) = None"
  then show "fst (readFile rel s) = Inl (Error (''File not found: '' @ rel))"
    by (simp add: readFile_def Deno_readTextFile_def Let_def)
next
  assume "currentRepoPath s = Some root \<and> root \<noteq> []"
    "fst (Deno_readTextFile (root @ ''/'' @ rel) s) = Inl error \<and> instanceof_NotFound error"
  then show "fst (readFile rel s) = Inl (Error (''File not found: '' @ rel))"
    by (cases "Deno_readTextFile (root @ ''/'' @ rel) s") (simp add: readFile_def Let_def)
next
  assume "currentRepoPath s = Some root \<and> root \<noteq> []"
    "fst (Deno_readTextFile (root @ ''/'' @ rel) s) = Inl error \<and> \<not> instanceof_NotFound error"
  then show "fst (readFile rel s) = Inl error"
    by (cases "Deno_readTextFile (root @ ''/'' @ rel) s") (simp add: readFile_def Let_def)
qed

theorem readFile_contract_witness:
  "initializeRepository online = (Inr ''/tmp/fep-mcp-c0ffee01'', mirrored) \<and>
   fst (readFile ''fep/a4ed/fep-a4ed.md'' mirrored) = Inr ''# FEP-a4ed'' \<and>
   fst (readFile ''fep/0000/fep-0000.md'' mirrored) = Inl (Error ''File not found: fep/0000/fep-0000.md'') \<and>
   fst (readFile ''fep'' mirrored) = Inl (Deno_error IsADirectory ''Is a directory (os error 21)'')"
proof -
  let ?p = "''/tmp/fep-mcp-c0ffee01''"
  let ?dir = "Deno_error IsADirectory ''Is a directory (os error 21)''"
  note i = online_initialize
  have d: "fst (Deno_readTextFile (?p @ ''/'' @ ''fep'') mirrored) =
      Inl (Deno_error IsADirectory ''Is a directory (os error 21)'')"
    by (simp add: Deno_readTextFile_def mirrored_fields checkout_def plant_def papers_def Let_def)
  from readFile_contract [of online ?p mirrored "''fep/a4ed/fep-a4ed.md''" "''# FEP-a4ed''" ?dir]
    readFile_contract [of online ?p mirrored "''fep/0000/fep-0000.md''" "''# FEP-a4ed''" ?dir]
    readFile_contract [of online ?p mirrored "''fep''" "''# FEP-a4ed''" ?dir]
    i d
  show ?thesis
    by (simp add: mirrored_fields checkout_def plant_def papers_def)
qed

subsection \<open>C5: calls before initialization\<close>

text \<open>
  Claim C5. While the path variable is not set, \<open>readFile\<close>, \<open>listDirectory\<close> and
  \<open>refreshRepository\<close> throw the not-initialized error and leave the whole state, the trace of
  calls included, as it was. That is the case before the first successful initialize, after a
  failed one, and after every \<open>cleanupRepository\<close>.
\<close>

theorem not_initialized_calls:
  "(\<not> truthy (currentRepoPath s) \<longrightarrow>
      readFile rel s = (Inl NOT_INITIALIZED, s) \<and>
      listDirectory rel s = (Inl NOT_INITIALIZED, s) \<and>
      refreshRepository s = (Inl NOT_INITIALIZED, s)) \<and>
   \<not> truthy (currentRepoPath (snd (cleanupRepository s))) \<and>
   (\<not> truthy (currentRepoPath s) \<and> fst (initializeRepository s) = Inl e \<longrightarrow>
      \<not> truthy (currentRepoPath (snd (initializeRepository s)))) \<and>
   NOT_INITIALIZED = Error ''Repository not initialized. Call initializeRepository() first.''"
proof (intro conjI impI)
  assume "\<not> truthy (currentRepoPath s)"
  then show "readFile rel s = (Inl NOT_INITIALIZED, s)"
    "listDirectory rel s = (Inl NOT_INITIALIZED, s)"
    "refreshRepository s = (Inl NOT_INITIALIZED, s)"
    by (simp_all add: readFile_def listDirectory_def refreshRepository_def split: option.split)
next
  show "\<not> truthy (currentRepoPath (snd (cleanupRepository s)))"
    by (rule not_truthy_after_cleanup)
next
  assume a: "\<not> truthy (currentRepoPath s) \<and> fst (initializeRepository s) = Inl e"
  then have "cleanup_previous s = s" by (simp add: cleanup_previous_def)
  with a initializeRepository_Inl [of s e]
  show "\<not> truthy (currentRepoPath (snd (initializeRepository s)))" by simp
next
  show "NOT_INITIALIZED = Error ''Repository not initialized. Call initializeRepository() first.''"
    by (simp add: NOT_INITIALIZED_def)
qed

theorem not_initialized_calls_witness:
  "\<not> truthy (currentRepoPath online) \<and>
   readFile ''index.json'' online = (Inl NOT_INITIALIZED, online) \<and>
   fst (initializeRepository offline) =
     Inl (Error ''Failed to clone FEP repository after 3 attempts: early EOF'') \<and>
   fst (refreshRepository (snd (initializeRepository offline))) = Inl NOT_INITIALIZED \<and>
   fst (listDirectory ''fep'' (snd (cleanupRepository mirrored))) = Inl NOT_INITIALIZED"
proof -
  let ?p = "''/tmp/fep-mcp-c0ffee01''"
  let ?t = "[(''.git'', Dir), (''.git/tmp_pack_2'', File ''PACK'')]"
  have a: "\<not> truthy (currentRepoPath online)" "\<not> truthy (currentRepoPath offline)"
    by (simp_all add: online_def offline_def)
  obtain s2 where tmp: "createTempDir (cleanup_previous offline) = (Inr ?p, s2)"
    by (simp add: offline_def online_def cleanup_previous_def createTempDir_def
        Deno_makeTempDir_def exists_on_disk_def temp_path_def Let_def)
  have r: "es_git s2 (calls s2) = Fails (Error ''connection reset'') (Some [(''.git'', Dir), (''.git/tmp_pack_1'', File ''PACK'')])"
    "es_git s2 (Suc (calls s2)) = Fails (Error ''early EOF'') (Some ?t)"
    "es_git s2 (Suc (Suc (calls s2))) = Fails (Error ''early EOF'') (Some ?t)"
    by (simp_all add: createTempDir_Inr [OF tmp] offline_def online_def)
  have b: "fst (initializeRepository offline) =
     Inl (Error ''Failed to clone FEP repository after 3 attempts: early EOF'')"
    using cloneWithRetry_three_failures(1) [OF r, of ?p]
    by (cases "cloneWithRetry ?p s2") (simp add: initializeRepository_def tmp as_Error_def)
  let ?e = "Error ''Failed to clone FEP repository after 3 attempts: early EOF''"
  from not_initialized_calls [of online "''index.json''" ?e]
    not_initialized_calls [of offline "''index.json''" ?e]
    not_initialized_calls [of "snd (initializeRepository offline)" "''index.json''" ?e]
    not_initialized_calls [of mirrored "''fep''" ?e]
    not_initialized_calls [of "snd (cleanupRepository mirrored)" "''fep''" ?e]
    a b
  show ?thesis by simp
qed

subsection \<open>C6: the existence probe never throws\<close>

text \<open>
  Claim C6. \<open>fileExists\<close> always returns a boolean: \<open>false\<close>, with no call made, while the path
  variable is not set; \<open>false\<close> where the disk has nothing at the path; and \<open>false\<close> whenever
  \<open>Deno.stat\<close> throws, whatever it throws.
\<close>

theorem fileExists_never_throws:
  "(\<exists>b. fst (fileExists rel s) = Inr b) \<and>
   (\<not> truthy (currentRepoPath s) \<longrightarrow> fileExists rel s = (Inr False, s)) \<and>
   (map_of (disk s) (template (currentRepoPath s) @ ''/'' @ rel) = None \<longrightarrow>
      fst (fileExists rel s) = Inr False) \<and>
   (fst (Deno_stat (template (currentRepoPath s) @ ''/'' @ rel) s) = Inl error \<longrightarrow>
      fst (fileExists rel s) = Inr False)"
  by (cases "Deno_stat (template (currentRepoPath s) @ ''/'' @ rel) s")
     (auto simp add: fileExists_def Deno_stat_def Let_def split: sum.splits option.splits)

theorem fileExists_never_throws_witness:
  "fileExists ''index.json'' online = (Inr False, online) \<and>
   fst (fileExists ''fep/0000'' mirrored) = Inr False \<and>
   fst (fileExists ''index.json''
          (mirrored\<lparr>faults := (\<lambda>e. Some (Deno_error PermissionDenied ''Permission denied (os error 13)''))\<rparr>))
     = Inr False"
proof -
  let ?denied = "mirrored\<lparr>faults := (\<lambda>e. Some (Deno_error PermissionDenied ''Permission denied (os error 13)''))\<rparr>"
  have a: "\<not> truthy (currentRepoPath online)" by (simp add: online_def)
  have b: "map_of (disk mirrored) (template (currentRepoPath mirrored) @ ''/'' @ ''fep/0000'') = None"
    by (simp add: mirrored_fields checkout_def plant_def papers_def)
  have c: "fst (Deno_stat (template (currentRepoPath ?denied) @ ''/'' @ ''index.json'') ?denied)
      = Inl (Deno_error PermissionDenied ''Permission denied (os error 13)'')"
    by (simp add: Deno_stat_def Let_def)
  let ?denial = "Deno_error PermissionDenied ''Permission denied (os error 13)''"
  from fileExists_never_throws [of "''index.json''" online ?denial]
    fileExists_never_throws [of "''fep/0000''" mirrored ?denial]
    fileExists_never_throws [of "''index.json''" ?denied
      "Deno_error PermissionDenied ''Permission denied (os error 13)''"]
    a b c
  show ?thesis by simp
qed

subsection \<open>C7: path and repository are set together\<close>

text \<open>
  Claim C7. The path variable is set exactly when the repository variable is set. Each of
  the six operations keeps it so, whether it returns or throws; hence it holds after any
  sequence of operations begun with both variables unset, as they are when the module is
  loaded.
\<close>

theorem handle_invariant_kept:
  "(handle_invariant s \<longrightarrow> handle_invariant (perform op s)) \<and>
   (UNINITIALIZED s \<longrightarrow> handle_invariant (foldl (\<lambda>s op. perform op s) s ops))"
proof (intro conjI impI)
  assume "handle_invariant s"
  then show "handle_invariant (perform op s)" by (rule perform_invariant)
next
  assume "UNINITIALIZED s"
  then have "handle_invariant s" by (simp add: UNINITIALIZED_def handle_invariant_def)
  then show "handle_invariant (foldl (\<lambda>s op. perform op s) s ops)" by (rule perform_all_invariant)
qed

theorem handle_invariant_kept_witness:
  "UNINITIALIZED online \<and> handle_invariant online \<and>
   handle_invariant (perform Initialize online) \<and>
   handle_invariant (foldl (\<lambda>s op. perform op s) online
     [ReadFile ''index.json'', Initialize, Refresh, FileExists ''fep'', ListDirectory ''fep'',
      Initialize, Teardown, Refresh])"
  using handle_invariant_kept [of online Initialize
      "[ReadFile ''index.json'', Initialize, Refresh, FileExists ''fep'', ListDirectory ''fep'',
        Initialize, Teardown, Refresh]"]
  by (simp add: UNINITIALIZED_def handle_invariant_def online_def)

subsection \<open>C8: initializing twice\<close>

text \<open>
  Claim C8, as the code has it. Of two initializes in a row that both succeed, with the
  runtime drawing no temporary name twice, the second returns a path different from the
  first; it begins by calling the recursive removal of the first path and then makes the new
  temporary directory. When that removal is not refused, nothing is on disk at the first path
  or below it after the second call. (When it is refused, the failure is logged and the old
  directory stays.)
\<close>

theorem reinitialize_moves_working_copy:
  assumes "initializeRepository s = (Inr p1, s1)"
    and "initializeRepository s1 = (Inr p2, s2)"
    and "distinct (rng s)"
  shows "p1 \<noteq> p2 \<and>
         (\<exists>evs. calls_since s1 s2 = Remove p1 # MakeTempDir p2 # evs) \<and>
         (faults s (Remove p1) = None \<longrightarrow>
            (\<forall>q. inside p1 q \<longrightarrow> map_of (disk s2) q = None))"
proof -
  note i1 = initializeRepository_Inr [OF assms(1)]
  note i2 = initializeRepository_Inr [OF assms(2)]
  from i1(8) obtain u1 sk1 where u1: "rng s = sk1 @ u1 # rng s1" "p1 = temp_path s ''fep-mcp-'' u1"
    by blast
  from i2(8) obtain u2 sk2 where u2: "rng s1 = sk2 @ u2 # rng s2" "p2 = temp_path s1 ''fep-mcp-'' u2"
    by blast
  have p2: "p2 = temp_path s ''fep-mcp-'' u2"
    using u2(2) i1(6) by (simp add: temp_path_def)
  from assms(3) u1(1) u2(1) have ne: "u1 \<noteq> u2" by auto
  have apart: "\<not> inside p2 q" if "inside p1 q" for q
    using temp_paths_apart [of s "''fep-mcp-''" u1 q u2] that ne by (auto simp add: u1(2) p2)
  have "inside p1 p1" by (simp add: inside_def)
  with apart have "\<not> inside p2 p1" by blast
  then have 1: "p1 \<noteq> p2" by (auto simp add: inside_def)
  have c: "cleanup_previous s1 = (cleanupOldRepo p1 s1)\<lparr>currentRepo := None, currentRepoPath := None\<rparr>"
    using i1(1,2) by (simp add: cleanup_previous_def)
  from initializeRepository_Inr_trace [OF assms(2)] obtain evs where
    "trace s2 = trace s1 @ Remove p1 # MakeTempDir p2 # evs"
    by (auto simp add: c)
  then have 2: "\<exists>evs. calls_since s1 s2 = Remove p1 # MakeTempDir p2 # evs"
    by (simp add: calls_since_def)
  have 3: "map_of (disk s2) q = None" if f: "faults s (Remove p1) = None" and q: "inside p1 q" for q
  proof -
    from i1(4) obtain tree rest where "disk s1 = checkout p1 tree @ rest" by blast
    then have "map_of (disk s1) p1 \<noteq> None"
      by (simp only: map_of_checkout_root) simp
    with f have "disk (cleanup_previous s1) = filter (\<lambda>(q, n). \<not> inside p1 q) (disk s1)"
      by (simp add: c disk_cleanupOldRepo i1(5))
    moreover have "map_of (disk s2) q = map_of (disk (cleanup_previous s1)) q"
      using assms(2) apart [OF q] by (rule initializeRepository_Inr_disk)
    ultimately show ?thesis using q by (simp add: map_of_filter_inside)
  qed
  from 1 2 3 show ?thesis by blast
qed

theorem reinitialize_moves_working_copy_witness:
  "initializeRepository online = (Inr ''/tmp/fep-mcp-c0ffee01'', mirrored) \<and>
   fst (initializeRepository mirrored) = Inr ''/tmp/fep-mcp-c0ffee02'' \<and>
   distinct (rng online) \<and>
   faults online (Remove ''/tmp/fep-mcp-c0ffee01'') = None \<and>
   ''/tmp/fep-mcp-c0ffee01'' \<noteq> ''/tmp/fep-mcp-c0ffee02'' \<and>
   map_of (disk (snd (initializeRepository mirrored))) ''/tmp/fep-mcp-c0ffee01'' = None \<and>
   map_of (disk (snd (initializeRepository mirrored))) ''/tmp/fep-mcp-c0ffee01/index.json'' = None"
proof -
  let ?p1 = "''/tmp/fep-mcp-c0ffee01''"
  let ?p2 = "''/tmp/fep-mcp-c0ffee02''"
  note a = online_initialize
  have b0: "fst (initializeRepository mirrored) = Inr ?p2"
  proof -
    have "disk (cleanup_previous mirrored) = [(''/tmp'', Dir)]"
      by (simp add: cleanup_previous_def mirrored_fields disk_cleanupOldRepo checkout_def
          plant_def papers_def inside_def)
    then obtain s2 where tmp: "createTempDir (cleanup_previous mirrored) = (Inr ?p2, s2)"
      by (simp add: createTempDir_def Deno_makeTempDir_def exists_on_disk_def temp_path_def
          Let_def mirrored_fields)
    have "es_git mirrored (calls mirrored) = Succeeds papers" by (simp add: mirrored_es_git)
    from initializeRepository_first_time [OF tmp this] show ?thesis by simp
  qed
  then have b: "initializeRepository mirrored = (Inr ?p2, snd (initializeRepository mirrored))"
    by (simp add: prod_eq_iff)
  have c: "distinct (rng online)" "faults online (Remove ?p1) = None"
    by (simp_all add: online_def)
  from reinitialize_moves_working_copy [OF a b c(1)] c(2)
  have "?p1 \<noteq> ?p2"
    "\<forall>q. inside ?p1 q \<longrightarrow> map_of (disk (snd (initializeRepository mirrored))) q = None"
    by simp_all
  then have "map_of (disk (snd (initializeRepository mirrored))) ?p1 = None"
    "map_of (disk (snd (initializeRepository mirrored))) ''/tmp/fep-mcp-c0ffee01/index.json'' = None"
    by (simp_all add: inside_def)
  with a b0 c show ?thesis by simp
qed

text \<open>
  Against claim C8 as stated: when the removal of the first working copy is refused, the
  second initialize still succeeds, in a new directory, and the first path is still on disk.
\<close>

theorem refused_removal_keeps_first_copy:
  "fst (initializeRepository pinned) = Inr ''/tmp/fep-mcp-c0ffee01'' \<and>
   fst (initializeRepository (snd (initializeRepository pinned))) = Inr ''/tmp/fep-mcp-c0ffee02'' \<and>
   map_of (disk (snd (initializeRepository (snd (initializeRepository pinned)))))
     ''/tmp/fep-mcp-c0ffee01'' = Some Dir \<and>
   map_of (disk (snd (initializeRepository (snd (initializeRepository pinned)))))
     ''/tmp/fep-mcp-c0ffee01/index.json'' = Some (File ''[]'')"
proof -
  let ?p1 = "''/tmp/fep-mcp-c0ffee01''"
  let ?p2 = "''/tmp/fep-mcp-c0ffee02''"
  let ?s1 = "snd (initializeRepository pinned)"
  let ?s2 = "snd (initializeRepository ?s1)"
  obtain t1 where tmp1: "createTempDir (cleanup_previous pinned) = (Inr ?p1, t1)"
    by (simp add: pinned_def online_def cleanup_previous_def createTempDir_def
        Deno_makeTempDir_def exists_on_disk_def temp_path_def refused_def Let_def)
  have t1: "t1 = snd (createTempDir (cleanup_previous pinned))" by (simp add: tmp1)
  have f1: "disk t1 = [(?p1, Dir), (''/tmp'', Dir)]" "rng t1 = [[Hc, H0, Hf, Hf, He, He, H0, H2]]"
    "tmpdir t1 = ''/tmp''" "faults t1 = refused ?p1" "es_git t1 = (\<lambda>n. Succeeds papers)"
    unfolding t1
    by (simp_all add: pinned_def online_def cleanup_previous_def createTempDir_def
        Deno_makeTempDir_def exists_on_disk_def temp_path_def refused_def Let_def record_call_def)
  have "es_git pinned (calls pinned) = Succeeds papers" by (simp add: pinned_def online_def)
  note run1 = initializeRepository_first_time [OF tmp1 this]
  have a: "fst (initializeRepository pinned) = Inr ?p1" by (simp add: run1)
  have s1: "currentRepoPath ?s1 = Some ?p1" "disk ?s1 = checkout ?p1 papers @ [(?p1, Dir), (''/tmp'', Dir)]"
    "rng ?s1 = [[Hc, H0, Hf, Hf, He, He, H0, H2]]" "tmpdir ?s1 = ''/tmp''"
    "faults ?s1 = refused ?p1" "es_git ?s1 = (\<lambda>n. Succeeds papers)"
    by (simp_all add: run1 f1)
  have c: "disk (cleanup_previous ?s1) = disk ?s1" "rng (cleanup_previous ?s1) = rng ?s1"
    "tmpdir (cleanup_previous ?s1) = ''/tmp''"
    by (simp_all add: cleanup_previous_def s1 disk_cleanupOldRepo refused_def)
  obtain t2 where tmp2: "createTempDir (cleanup_previous ?s1) = (Inr ?p2, t2)"
    by (simp add: createTempDir_def Deno_makeTempDir_def exists_on_disk_def temp_path_def Let_def
        c s1 checkout_def plant_def papers_def refused_def)
  have "es_git ?s1 (calls ?s1) = Succeeds papers" by (simp add: s1)
  note run2 = initializeRepository_first_time [OF tmp2 this]
  have b: "fst (initializeRepository ?s1) = Inr ?p2" by (simp add: run2)
  have "disk ?s2 = checkout ?p2 papers @ (?p2, Dir) # disk ?s1"
    by (simp add: run2 createTempDir_Inr(5,8) [OF tmp2] c(1) s1(6))
  then have "map_of (disk ?s2) ?p1 = Some Dir"
    "map_of (disk ?s2) ''/tmp/fep-mcp-c0ffee01/index.json'' = Some (File ''[]'')"
    by (simp_all add: s1 checkout_def plant_def papers_def)
  with a b show ?thesis by simp
qed

subsection \<open>C9: the existence probe and directories\<close>



subsection \<open>C10: a refresh whose reopening fails\<close>

text \<open>
  Claim C10. When the remote is found and the fetch succeeds but \<open>openRepository\<close> throws,
  the error is the same \<open>Failed to refresh repository:\<close> error a fetch failing with the same
  value gives, and \<open>currentRepo\<close> and \<open>currentRepoPath\<close> are what they were before the call.
\<close>

theorem refresh_reopen_failure:
  assumes "READY s"
    and "es_git s (calls s) = Succeeds t0"
    and "es_git s (Suc (calls s)) = Succeeds t1"
    and "es_git s (Suc (Suc (calls s))) = Fails x t2"
  shows "fst (refreshRepository s) =
           Inl (Error (''Failed to refresh repository: ''
                         @ (if instanceof_Error x then message x else String x))) \<and>
         currentRepo (snd (refreshRepository s)) = currentRepo s \<and>
         currentRepoPath (snd (refreshRepository s)) = currentRepoPath s \<and>
         calls_since s (snd (refreshRepository s)) =
           [GetRemote ''origin'', Fetch, OpenRepository (template (currentRepoPath s))] \<and>
         (READY f \<and> (\<exists>t. es_git f (calls f) = Succeeds t) \<and>
          (\<exists>t. es_git f (Suc (calls f)) = Fails x t) \<longrightarrow>
            fst (refreshRepository f) = fst (refreshRepository s))"
proof -
  from assms(1) obtain repo where repo: "currentRepo s = Some repo" "truthy (currentRepoPath s)"
    by (auto simp add: READY_def)
  have 1: "fst (refreshRepository s) =
           Inl (Error (''Failed to refresh repository: ''
                         @ (if instanceof_Error x then message x else String x)))"
    using repo assms(2-4) by (simp add: refresh_defs)
  have 2: "currentRepo (snd (refreshRepository s)) = currentRepo s"
    "currentRepoPath (snd (refreshRepository s)) = currentRepoPath s"
    using repo assms(2-4) by (simp_all add: refresh_defs)
  have "trace (snd (refreshRepository s)) =
      trace s @ [GetRemote ''origin'', Fetch, OpenRepository (template (currentRepoPath s))]"
    using repo assms(2-4) by (simp add: refresh_defs)
  then have 3: "calls_since s (snd (refreshRepository s)) =
           [GetRemote ''origin'', Fetch, OpenRepository (template (currentRepoPath s))]"
    by simp
  have 4: "fst (refreshRepository f) = fst (refreshRepository s)"
    if "READY f" "es_git f (calls f) = Succeeds t" "es_git f (Suc (calls f)) = Fails x t'" for t t'
  proof -
    from that(1) obtain repo' where "currentRepo f = Some repo'" "truthy (currentRepoPath f)"
      by (auto simp add: READY_def)
    with that(2,3) show ?thesis by (simp add: 1) (simp add: refresh_defs)
  qed
  from 1 2 3 4 show ?thesis by blast
qed

text \<open>The refresh of \<open>unopenable\<close>, whose reopening fails.\<close>

theorem refresh_reopen_failure_witness:
  "READY unopenable \<and>
   fst (refreshRepository unopenable) =
     Inl (Error ''Failed to refresh repository: could not find repository'') \<and>
   currentRepo (snd (refreshRepository unopenable)) = Some (Repository 0 ''/tmp/fep-mcp-c0ffee01'') \<and>
   currentRepoPath (snd (refreshRepository unopenable)) = Some ''/tmp/fep-mcp-c0ffee01'' \<and>
   calls_since unopenable (snd (refreshRepository unopenable)) =
     [GetRemote ''origin'', Fetch, OpenRepository ''/tmp/fep-mcp-c0ffee01'']"
proof -
  have a: "READY unopenable"
    by (simp add: READY_def unopenable_def mirrored_fields)
  have r: "es_git unopenable (calls unopenable) = Succeeds [(''FETCH_HEAD'', File ''0a1b2c'')]"
    "es_git unopenable (Suc (calls unopenable)) = Succeeds [(''FETCH_HEAD'', File ''0a1b2c'')]"
    "es_git unopenable (Suc (Suc (calls unopenable))) = Fails (Thrown_value ''could not find repository'') None"
    by (simp_all add: unopenable_def mirrored_fields)
  from refresh_reopen_failure [OF a r, of unopenable]
  show ?thesis
    using a by (simp add: unopenable_def mirrored_fields)
qed

end
